theory Spec2Isabelle
  imports Main
begin

section \<open>Python text primitives used by the tool\<close>

text \<open>
  The program is \<^verbatim>\<open>tools/linuwu_sense_gui.py\<close>. A Python \<^verbatim>\<open>str\<close> is modelled as a
  \<^typ>\<open>string\<close>; one \<^typ>\<open>char\<close> stands for one code point in the range 0..255, so
  \<^const>\<open>length\<close> is Python's \<^verbatim>\<open>len\<close> on such texts. Code points above 255 are outside
  the model.
\<close>

definition isspace :: "char \<Rightarrow> bool" where
  \<comment> \<open>\<^verbatim>\<open>str.isspace\<close> on one code point below 256: TAB, LF, VT, FF, CR, FS, GS, RS, US,
      space, NEL and NBSP. This is the set that \<^verbatim>\<open>str.strip()\<close> and \<^verbatim>\<open>str.split()\<close> use.\<close>
  "isspace c \<longleftrightarrow>
     c \<in> set [CHR 0x09, CHR 0x0A, CHR 0x0B, CHR 0x0C, CHR 0x0D, CHR 0x1C, CHR 0x1D,
              CHR 0x1E, CHR 0x1F, CHR 0x20, CHR 0x85, CHR 0xA0]"

definition py_strip :: "string \<Rightarrow> string" where
  \<comment> \<open>\<^verbatim>\<open>s.strip()\<close>: drop the leading and the trailing run of whitespace.\<close>
  "py_strip s = rev (dropWhile isspace (rev (dropWhile isspace s)))"

definition py_lower_char :: "char \<Rightarrow> char" where
  \<comment> \<open>\<^verbatim>\<open>str.lower\<close> on one ASCII code point; the tool only lowers texts made of hex digits.\<close>
  "py_lower_char c =
     (case map_of (zip ''ABCDEFGHIJKLMNOPQRSTUVWXYZ'' ''abcdefghijklmnopqrstuvwxyz'') c of
        Some l \<Rightarrow> l
      | None \<Rightarrow> c)"

definition py_lower :: "string \<Rightarrow> string" where
  "py_lower s = map py_lower_char s"

fun py_join :: "string \<Rightarrow> string list \<Rightarrow> string" where
  \<comment> \<open>\<^verbatim>\<open>sep.join(parts)\<close>\<close>
  "py_join sep [] = []"
| "py_join sep [x] = x"
| "py_join sep (x # y # ys) = x @ sep @ py_join sep (y # ys)"

definition dec_digit :: "nat \<Rightarrow> char" where
  "dec_digit d = ''0123456789'' ! d"

fun py_str_nat :: "nat \<Rightarrow> string" where
  "py_str_nat n = (if n < 10 then [dec_digit n] else py_str_nat (n div 10) @ [dec_digit (n mod 10)])"

declare py_str_nat.simps [simp del]

definition py_str :: "int \<Rightarrow> string" where
  \<comment> \<open>\<^verbatim>\<open>str(n)\<close> for a Python int: decimal digits, a minus sign for a negative number.\<close>
  "py_str n = (if n < 0 then CHR ''-'' # py_str_nat (nat (- n)) else py_str_nat (nat n))"

section \<open>Exceptions\<close>

text \<open>
  The exceptions that the tool raises or receives from the operating system; each carries
  the text that \<^verbatim>\<open>str(e)\<close> gives. \<open>PermissionError\<close> is the class that the handlers
  catch first; \<open>OSError\<close> stands for every other failure of a file operation.
\<close>

datatype exn =
    FileNotFoundError string
  | ValueError string
  | IndexError string
  | PermissionError string
  | OSError string

fun exn_text :: "exn \<Rightarrow> string" where
  "exn_text (FileNotFoundError m) = m"
| "exn_text (ValueError m) = m"
| "exn_text (IndexError m) = m"
| "exn_text (PermissionError m) = m"
| "exn_text (OSError m) = m"

section \<open>Colour parsing\<close>

definition hex_chars :: string where
  "hex_chars = ''0123456789abcdefABCDEF''"

definition parse_hex_color :: "string \<Rightarrow> exn + string" where
  "parse_hex_color s0 =
     (let s = py_strip s0;
          s = (if take 1 s = ''#'' then drop 1 s else s)
      in if length s \<noteq> 6 \<or> list_ex (\<lambda>c. c \<notin> set hex_chars) s
         then Inl (ValueError ''Use RRGGBB or #RRGGBB'')
         else Inr (py_lower s))"

section \<open>Constants of the sibling module and the environment\<close>

text \<open>
  The tool reads its paths and the mode table from the sibling module \<^verbatim>\<open>linuwuctl\<close>
  (imported as \<^verbatim>\<open>ctl\<close>). Their values are parameters here. The dictionary
  \<^verbatim>\<open>MODE_NAME_TO_ID\<close> is an association list in insertion order, since the tool lists its
  keys in order.
\<close>

record ctl =
  SYSFS_BASE :: string
  SENSE_PRED :: string
  SENSE_NITRO :: string
  KB_PER_ZONE :: string
  KB_FOUR_MODE :: string
  PLATFORM_PROFILE :: string
  PLATFORM_PROFILE_CHOICES :: string
  MODE_NAME_TO_ID :: "(string \<times> int) list"

text \<open>
  The file system as the tool sees it: which paths exist, what opening and reading a path
  gives (the decoded text, or the exception raised), and whether writing a text to a path
  raises. The effect of a run is the list of \<^verbatim>\<open>write_text\<close> calls it made.
\<close>

record env =
  path_present :: "string \<Rightarrow> bool"
  file_read :: "string \<Rightarrow> exn + string"
  write_raises :: "string \<Rightarrow> string \<Rightarrow> exn option"

type_synonym trace = "(string \<times> string) list"

datatype notice = Info string | Error string

definition path_exists :: "env \<Rightarrow> string \<Rightarrow> bool" where
  "path_exists e p = path_present e p"

definition read_text :: "env \<Rightarrow> string \<Rightarrow> exn + string" where
  "read_text e path = (case file_read e path of Inl x \<Rightarrow> Inl x | Inr t \<Rightarrow> Inr (py_strip t))"

definition write_text :: "env \<Rightarrow> string \<Rightarrow> string \<Rightarrow> exn option \<times> trace" where
  \<comment> \<open>The outcome (\<open>None\<close>: returned normally) and the call made.\<close>
  "write_text e path content = (write_raises e path content, [(path, content)])"

definition raise :: "exn \<Rightarrow> exn option \<times> trace" where
  \<comment> \<open>An exception raised in a \<^verbatim>\<open>try\<close> body before any write.\<close>
  "raise x = (Some x, [])"

definition report :: "string \<Rightarrow> exn option \<times> trace \<Rightarrow> notice \<times> trace" where
  \<comment> \<open>The end of every handler: \<^verbatim>\<open>notifier.info\<close> after a normal run,
      \<^verbatim>\<open>except PermissionError\<close> first, then \<^verbatim>\<open>except Exception as e\<close>.\<close>
  "report msg r =
     (case fst r of
        None \<Rightarrow> Info msg
      | Some (PermissionError m) \<Rightarrow> Error ''Permission denied: run as root to apply.''
      | Some x \<Rightarrow> Error (''Error: '' @ exn_text x),
      snd r)"

definition path_join :: "string \<Rightarrow> string \<Rightarrow> string" where
  \<comment> \<open>\<^verbatim>\<open>os.path.join(a, b)\<close> on POSIX, two components.\<close>
  "path_join a b =
     (if take 1 b = ''/'' then b
      else if a = [] \<or> last a = CHR ''/'' then a @ b
      else a @ ''/'' @ b)"

section \<open>Fan path detection\<close>

definition detect_sense_fan_path :: "ctl \<Rightarrow> env \<Rightarrow> string option" where
  "detect_sense_fan_path c e =
     (let base =
            (if path_exists e (SYSFS_BASE c)
             then (if path_exists e (SENSE_PRED c) then Some (SENSE_PRED c)
                   else if path_exists e (SENSE_NITRO c) then Some (SENSE_NITRO c)
                   else None)
             else None)
      in case base of
           None \<Rightarrow> None
         | Some b \<Rightarrow>
             (let p = path_join b ''fan_speed''
              in if path_exists e p then Some p else None))"

section \<open>Keyboard: static colours per zone\<close>

text \<open>
  The widgets that a handler reads are a record; a spin row's value is the integer that
  \<^verbatim>\<open>int(row.get_value())\<close> gives.
\<close>

record static_ui =
  single_active :: bool
  single_text :: string
  zone_texts :: "string list"
  bright_value :: int

fun parse_all :: "string list \<Rightarrow> exn + string list" where
  \<comment> \<open>\<^verbatim>\<open>[parse_hex_color(er.get_text()) for er in z_entries]\<close>: the first failure raises.\<close>
  "parse_all [] = Inr []"
| "parse_all (t # ts) =
     (case parse_hex_color t of
        Inl x \<Rightarrow> Inl x
      | Inr c \<Rightarrow> (case parse_all ts of Inl x \<Rightarrow> Inl x | Inr cs \<Rightarrow> Inr (c # cs)))"

definition static_colors :: "static_ui \<Rightarrow> exn + string list" where
  "static_colors ui =
     (if single_active ui
      then (case parse_hex_color (single_text ui) of Inl x \<Rightarrow> Inl x | Inr c \<Rightarrow> Inr [c])
      else (case parse_all (zone_texts ui) of
              Inl x \<Rightarrow> Inl x
            | Inr cs \<Rightarrow> if length cs \<noteq> 4 then Inl (ValueError ''Provide 4 colors'') else Inr cs))"

definition apply_static :: "ctl \<Rightarrow> env \<Rightarrow> static_ui \<Rightarrow> notice \<times> trace" where
  "apply_static c e ui = report ''Keyboard static colors applied''
     (if \<not> path_exists e (KB_PER_ZONE c)
      then raise (FileNotFoundError (''Missing per_zone_mode at '' @ KB_PER_ZONE c))
      else
        (let brightness = bright_value ui
         in case static_colors ui of
              Inl x \<Rightarrow> raise x
            | Inr colors0 \<Rightarrow>
                (let colors = (if length colors0 = 1 then concat (replicate 4 colors0) else colors0);
                     payload = py_join '','' (colors @ [py_str brightness]) @ ''\<newline>''
                 in write_text e (KB_PER_ZONE c) payload)))"

section \<open>Keyboard: effect\<close>

definition hex_val :: "char \<Rightarrow> nat option" where
  "hex_val ch =
     map_of (zip ''0123456789abcdefABCDEF''
               [0, 1, 2, 3, 4, 5, 6, 7, 8, 9, 10, 11, 12, 13, 14, 15, 10, 11, 12, 13, 14, 15]) ch"

fun hex_fold :: "nat \<Rightarrow> string \<Rightarrow> nat option" where
  "hex_fold acc [] = Some acc"
| "hex_fold acc (ch # cs) =
     (case hex_val ch of None \<Rightarrow> None | Some d \<Rightarrow> hex_fold (16 * acc + d) cs)"

definition py_int16 :: "string \<Rightarrow> exn + int" where
  \<comment> \<open>\<^verbatim>\<open>int(s, 16)\<close> on a text of hex digits. Python also accepts a sign, blanks, underscores
      and a \<^verbatim>\<open>0x\<close> prefix; a slice of a parsed colour has none of them.\<close>
  "py_int16 s =
     (case (if s = [] then None else hex_fold 0 s) of
        None \<Rightarrow>
          Inl (ValueError (''invalid literal for int() with base 16: '' @ [CHR 0x27] @ s @ [CHR 0x27]))
      | Some n \<Rightarrow> Inr (int n))"

definition color_rgb :: "string \<Rightarrow> exn + (int \<times> int \<times> int)" where
  \<comment> \<open>\<^verbatim>\<open>int(col[0:2], 16), int(col[2:4], 16), int(col[4:6], 16)\<close>\<close>
  "color_rgb col =
     (case py_int16 (take 2 col) of
        Inl x \<Rightarrow> Inl x
      | Inr r \<Rightarrow>
          (case py_int16 (take 2 (drop 2 col)) of
             Inl x \<Rightarrow> Inl x
           | Inr g \<Rightarrow>
               (case py_int16 (take 2 (drop 4 col)) of
                  Inl x \<Rightarrow> Inl x
                | Inr b \<Rightarrow> Inr (r, g, b))))"

record effect_ui =
  mode_selected :: nat
  speed_value :: int
  bright2_value :: int
  dir_value :: int
  color_text :: string

definition mode_names :: "ctl \<Rightarrow> string list" where
  \<comment> \<open>\<^verbatim>\<open>list(ctl.MODE_NAME_TO_ID.keys())\<close>\<close>
  "mode_names c = map fst (MODE_NAME_TO_ID c)"

definition mode_id_of :: "ctl \<Rightarrow> string \<Rightarrow> int" where
  \<comment> \<open>\<^verbatim>\<open>ctl.MODE_NAME_TO_ID.get(mode_name, 0)\<close>\<close>
  "mode_id_of c mode_name =
     (case map_of (MODE_NAME_TO_ID c) mode_name of Some i \<Rightarrow> i | None \<Rightarrow> 0)"

definition effect_rgb :: "effect_ui \<Rightarrow> exn + (int \<times> int \<times> int)" where
  "effect_rgb ui =
     (let ctext = py_strip (color_text ui)
      in if ctext \<noteq> []
         then (case parse_hex_color ctext of Inl x \<Rightarrow> Inl x | Inr col \<Rightarrow> color_rgb col)
         else Inr (0, 0, 0))"

definition effect_with_mode :: "ctl \<Rightarrow> env \<Rightarrow> effect_ui \<Rightarrow> string \<Rightarrow> exn option \<times> trace" where
  \<comment> \<open>The \<^verbatim>\<open>try\<close> body of \<^verbatim>\<open>apply_effect\<close> from the table lookup on, for the mode name
      that the selection gave.\<close>
  "effect_with_mode c e ui mode_name =
     (let mode_id = mode_id_of c mode_name;
          speed = speed_value ui;
          brightness = bright2_value ui;
          direction = dir_value ui
      in case effect_rgb ui of
           Inl x \<Rightarrow> raise x
         | Inr (r, g, b) \<Rightarrow>
             (let payload =
                    py_join '','' (map py_str [mode_id, speed, brightness, direction, r, g, b])
                      @ ''\<newline>''
              in write_text e (KB_FOUR_MODE c) payload))"

definition apply_effect :: "ctl \<Rightarrow> env \<Rightarrow> effect_ui \<Rightarrow> notice \<times> trace" where
  "apply_effect c e ui = report ''Keyboard effect applied''
     (if \<not> path_exists e (KB_FOUR_MODE c)
      then raise (FileNotFoundError (''Missing four_zone_mode at '' @ KB_FOUR_MODE c))
      else if mode_selected ui < length (mode_names c)
      then effect_with_mode c e ui (mode_names c ! mode_selected ui)
      else raise (IndexError ''list index out of range''))"

section \<open>Power profile\<close>

fun py_split_from :: "string \<Rightarrow> string \<Rightarrow> string list" where
  \<comment> \<open>The token read so far and the rest of the text.\<close>
  "py_split_from tok [] = (if tok = [] then [] else [tok])"
| "py_split_from tok (ch # cs) =
     (if isspace ch
      then (if tok = [] then py_split_from [] cs else tok # py_split_from [] cs)
      else py_split_from (tok @ [ch]) cs)"

definition py_split :: "string \<Rightarrow> string list" where
  \<comment> \<open>\<^verbatim>\<open>s.split()\<close>: runs of whitespace separate the tokens, no token is empty.\<close>
  "py_split s = py_split_from [] s"

definition default_choices :: "string list" where
  "default_choices = [''balanced'', ''performance'', ''power-saver'']"

definition load_choices :: "ctl \<Rightarrow> env \<Rightarrow> string list" where
  \<comment> \<open>The choices that \<^verbatim>\<open>_build_power_page\<close> offers.\<close>
  "load_choices c e =
     (let choices =
            (if path_exists e (PLATFORM_PROFILE_CHOICES c)
             then (case read_text e (PLATFORM_PROFILE_CHOICES c) of
                     Inl x \<Rightarrow> []
                   | Inr raw \<Rightarrow> filter (\<lambda>t. t \<noteq> []) (py_split raw))
             else [])
      in if choices = [] then default_choices else choices)"

definition profile_sel :: "string list \<Rightarrow> nat \<Rightarrow> exn + string" where
  \<comment> \<open>\<^verbatim>\<open>sel = choices[combo.get_selected()] if choices else None\<close>, then the test
      \<^verbatim>\<open>if not sel\<close>.\<close>
  "profile_sel choices selected =
     (if choices \<noteq> []
      then (if selected < length choices
            then (if choices ! selected = [] then Inl (ValueError ''No profile selected'')
                  else Inr (choices ! selected))
            else Inl (IndexError ''list index out of range''))
      else Inl (ValueError ''No profile selected''))"

definition apply_profile :: "ctl \<Rightarrow> env \<Rightarrow> string list \<Rightarrow> nat \<Rightarrow> notice \<times> trace" where
  \<comment> \<open>\<open>choices\<close> is the list built with the page, \<open>selected\<close> is \<^verbatim>\<open>combo.get_selected()\<close>.\<close>
  "apply_profile c e choices selected =
     (if \<not> path_exists e (PLATFORM_PROFILE c)
      then report [] (raise (FileNotFoundError (''Missing '' @ PLATFORM_PROFILE c)))
      else
        (case profile_sel choices selected of
           Inl x \<Rightarrow> report [] (raise x)
         | Inr sel \<Rightarrow>
             report (''Power profile set to '' @ sel)
               (write_text e (PLATFORM_PROFILE c) (sel @ ''\<newline>''))))"

section \<open>Fans\<close>

record fans_ui =
  auto_active :: bool
  cpu_value :: int
  gpu_value :: int

definition apply_fans :: "ctl \<Rightarrow> env \<Rightarrow> fans_ui \<Rightarrow> notice \<times> trace" where
  "apply_fans c e ui = report ''Fan settings applied''
     (case detect_sense_fan_path c e of
        None \<Rightarrow> raise (FileNotFoundError ''fan_speed path not found (is the module loaded?)'')
      | Some p \<Rightarrow>
          if p = [] then raise (FileNotFoundError ''fan_speed path not found (is the module loaded?)'')
          else if auto_active ui then write_text e p ''0,0\<newline>''
          else
            (let cpu = cpu_value ui; gpu = gpu_value ui
             in if \<not> (0 \<le> cpu \<and> cpu \<le> 100 \<and> 0 \<le> gpu \<and> gpu \<le> 100)
                then raise (ValueError ''Percentages must be 0-100'')
                else write_text e p (py_str cpu @ '','' @ py_str gpu @ ''\<newline>'')))"

section \<open>Reference notions and sample inputs\<close>

text \<open>
  Notions that the statements below compare the program with: the value of a digit as its
  position in the digit text, the number a decimal text denotes, the value of a pair of hex
  digits of a colour, and the token list of a text cut at every whitespace character.
\<close>

fun is_permission_error :: "exn \<Rightarrow> bool" where
  "is_permission_error (PermissionError m) = True"
| "is_permission_error x = False"

definition index_in :: "string \<Rightarrow> char \<Rightarrow> nat" where
  "index_in digits ch = length (takeWhile (\<lambda>x. x \<noteq> ch) digits)"

definition dec_value :: "string \<Rightarrow> nat" where
  "dec_value s = foldl (\<lambda>a ch. 10 * a + index_in ''0123456789'' ch) 0 s"

definition hex_pair :: "string \<Rightarrow> nat \<Rightarrow> int" where
  \<comment> \<open>The base-16 value of the two digits of a lower-case colour at positions \<open>i\<close>, \<open>i + 1\<close>.\<close>
  "hex_pair col i =
     int (16 * index_in ''0123456789abcdef'' (col ! i) + index_in ''0123456789abcdef'' (col ! (i + 1)))"

definition plain_decimal :: "string \<Rightarrow> int \<Rightarrow> bool" where
  \<comment> \<open>\<open>s\<close> is the decimal text of \<open>n\<close>: digits only, no padding zero, denoting \<open>n\<close>.\<close>
  "plain_decimal s n \<longleftrightarrow>
     s \<noteq> [] \<and> set s \<subseteq> set ''0123456789'' \<and> (1 < length s \<longrightarrow> hd s \<noteq> CHR ''0'') \<and>
     int (dec_value s) = n"

definition one_line :: "string \<Rightarrow> bool" where
  \<comment> \<open>The text ends with a newline and holds no other one.\<close>
  "one_line s \<longleftrightarrow> s \<noteq> [] \<and> last s = CHR ''\<newline>'' \<and> CHR ''\<newline>'' \<notin> set (butlast s)"

fun cut_each :: "string \<Rightarrow> string \<Rightarrow> string list" where
  \<comment> \<open>Cut at every single whitespace character; tokens between two of them may be empty.\<close>
  "cut_each tok [] = [tok]"
| "cut_each tok (ch # cs) = (if isspace ch then tok # cut_each [] cs else cut_each (tok @ [ch]) cs)"

definition decodeChoices :: "string \<Rightarrow> string list" where
  \<comment> \<open>Split on any whitespace, drop the empty tokens; order and repetitions stay.\<close>
  "decodeChoices raw = filter (\<lambda>t. t \<noteq> []) (cut_each [] raw)"

text \<open>
  Sample values for the constants of \<^verbatim>\<open>linuwuctl\<close> and sample file systems, used to run the
  program on concrete inputs.
\<close>

definition ctl_sample :: ctl where
  "ctl_sample =
     \<lparr>SYSFS_BASE = ''/sys/acer-wmi'',
      SENSE_PRED = ''/sys/acer-wmi/predator_sense'',
      SENSE_NITRO = ''/sys/acer-wmi/nitro_sense'',
      KB_PER_ZONE = ''/sys/acer-wmi/four_zoned_kb/per_zone_mode'',
      KB_FOUR_MODE = ''/sys/acer-wmi/four_zoned_kb/four_zone_mode'',
      PLATFORM_PROFILE = ''/sys/firmware/acpi/platform_profile'',
      PLATFORM_PROFILE_CHOICES = ''/sys/firmware/acpi/platform_profile_choices'',
      MODE_NAME_TO_ID = [(''static'', 0), (''breathing'', 1), (''neon'', 2), (''wave'', 3)]\<rparr>"

definition env_of :: "string list \<Rightarrow> string \<Rightarrow> exn option \<Rightarrow> env" where
  \<comment> \<open>The paths that exist, the text every read gives, the outcome of every write.\<close>
  "env_of present text w =
     \<lparr>path_present = (\<lambda>p. p \<in> set present),
      file_read = (\<lambda>p. Inr text),
      write_raises = (\<lambda>p s. w)\<rparr>"

definition all_paths :: "string list" where
  "all_paths =
     [''/sys/acer-wmi'', ''/sys/acer-wmi/predator_sense'', ''/sys/acer-wmi/nitro_sense'',
      ''/sys/acer-wmi/predator_sense/fan_speed'', ''/sys/acer-wmi/nitro_sense/fan_speed'',
      ''/sys/acer-wmi/four_zoned_kb/per_zone_mode'', ''/sys/acer-wmi/four_zoned_kb/four_zone_mode'',
      ''/sys/firmware/acpi/platform_profile'', ''/sys/firmware/acpi/platform_profile_choices'']"

section \<open>Facts about the text primitives\<close>

lemma hex_not_space:
  assumes "ch \<in> set hex_chars"
  shows "\<not> isspace ch"
proof -
  have "list_all (\<lambda>x. \<not> isspace x) hex_chars"
    by (simp add: hex_chars_def isspace_def)
  with assms show ?thesis by (simp add: list_all_iff)
qed

lemma hex_not_hash:
  assumes "ch \<in> set hex_chars"
  shows "ch \<noteq> CHR ''#''"
proof -
  have "list_all (\<lambda>x. x \<noteq> CHR ''#'') hex_chars"
    by (simp add: hex_chars_def)
  with assms show ?thesis by (simp add: list_all_iff)
qed

lemma lower_hex_char:
  assumes "ch \<in> set hex_chars"
  shows "py_lower_char ch \<in> set ''0123456789abcdef''"
proof -
  have "list_all (\<lambda>x. py_lower_char x \<in> set ''0123456789abcdef'') hex_chars"
    by (simp add: hex_chars_def py_lower_char_def)
  with assms show ?thesis by (simp add: list_all_iff)
qed

lemma strip_pad:
  assumes "\<forall>x\<in>set ws1. isspace x" and "\<forall>x\<in>set ws2. isspace x"
  shows "py_strip (ws1 @ s @ ws2) = py_strip s"
proof -
  have a: "dropWhile isspace (ws1 @ s @ ws2) = dropWhile isspace (s @ ws2)"
    by (rule dropWhile_append2) (use assms(1) in simp)
  have b: "dropWhile isspace (rev (dropWhile isspace (s @ ws2))) = dropWhile isspace (rev (dropWhile isspace s))"
  proof (cases "\<forall>x\<in>set s. isspace x")
    case True
    then have c: "dropWhile isspace (s @ ws2) = []" and d: "dropWhile isspace s = []"
      using assms(2) by simp_all
    show ?thesis unfolding c d ..
  next
    case False
    then obtain x where x: "x \<in> set s" "\<not> isspace x" by blast
    then have c: "dropWhile isspace (s @ ws2) = dropWhile isspace s @ ws2"
      by (rule dropWhile_append1)
    have "dropWhile isspace (rev ws2 @ rev (dropWhile isspace s)) =
          dropWhile isspace (rev (dropWhile isspace s))"
      by (rule dropWhile_append2) (use assms(2) in simp)
    then show ?thesis unfolding c by simp
  qed
  show ?thesis unfolding py_strip_def a b ..
qed

lemma strip_id:
  assumes "s \<noteq> []" "\<not> isspace (hd s)" "\<not> isspace (last s)"
  shows "py_strip s = s"
proof -
  have a: "dropWhile isspace s = s" using assms(1,2) by (cases s) auto
  have "dropWhile isspace (rev s) = rev s"
    using assms(1,3) by (cases "rev s") (auto simp: last_rev[symmetric] hd_rev)
  then show ?thesis by (simp add: py_strip_def a)
qed

lemma strip_ends:
  assumes "py_strip s \<noteq> []"
  shows "\<not> isspace (hd (py_strip s)) \<and> \<not> isspace (last (py_strip s))"
proof -
  let ?d = "dropWhile isspace (rev (dropWhile isspace s))"
  have ne: "?d \<noteq> []" using assms by (simp add: py_strip_def)
  then have h: "\<not> isspace (hd ?d)" by (rule hd_dropWhile)
  have l: "last (py_strip s) = hd ?d" using ne by (simp add: py_strip_def last_rev)
  have "dropWhile isspace s \<noteq> []"
  proof
    assume "dropWhile isspace s = []"
    then have "?d = []" by (simp only: rev.simps dropWhile.simps)
    with ne show False by simp
  qed
  then have h2: "\<not> isspace (hd (dropWhile isspace s))" by (rule hd_dropWhile)
  have "last ?d = last (rev (dropWhile isspace s))"
    using ne by (metis last_appendR takeWhile_dropWhile_id)
  then have "hd (py_strip s) = hd (dropWhile isspace s)"
    using ne by (simp add: py_strip_def hd_rev last_rev)
  then show ?thesis using h l h2 by simp
qed


lemma parse_valid:
  assumes "length u = 6" "set u \<subseteq> set hex_chars" "py_strip s = u \<or> py_strip s = CHR ''#'' # u"
  shows "parse_hex_color s = Inr (py_lower u)"
proof -
  have ne: "u \<noteq> []" using assms(1) by auto
  then have "hd u \<in> set hex_chars" using assms(2) by auto
  then have "hd u \<noteq> CHR ''#''" by (rule hex_not_hash)
  then have t: "take 1 u \<noteq> ''#''" using ne by (cases u) auto
  have ex: "\<not> list_ex (\<lambda>c. c \<notin> set hex_chars) u" using assms(2) by (auto simp: list_ex_iff)
  from assms(3) show ?thesis
  proof
    assume "py_strip s = u"
    then show ?thesis using t ex assms(1) by (simp add: parse_hex_color_def Let_def)
  next
    assume "py_strip s = CHR ''#'' # u"
    then show ?thesis using ex assms(1) by (simp add: parse_hex_color_def Let_def)
  qed
qed

lemma parse_Inr_D:
  assumes "parse_hex_color s = Inr r"
  shows "\<exists>u. length u = 6 \<and> set u \<subseteq> set hex_chars \<and> (py_strip s = u \<or> py_strip s = CHR ''#'' # u) \<and> r = py_lower u"
proof -
  define u where "u = (if take 1 (py_strip s) = ''#'' then drop 1 (py_strip s) else py_strip s)"
  have ok: "length u = 6 \<and> \<not> list_ex (\<lambda>c. c \<notin> set hex_chars) u" and r: "r = py_lower u"
    using assms unfolding parse_hex_color_def Let_def u_def[symmetric]
    by (auto split: if_splits)
  have "py_strip s = u \<or> py_strip s = CHR ''#'' # u"
    unfolding u_def by (cases "py_strip s") (auto split: if_splits)
  then show ?thesis using ok r by (auto simp: list_ex_iff)
qed

lemma parse_Inl_D: "parse_hex_color s = Inl x \<Longrightarrow> x = ValueError ''Use RRGGBB or #RRGGBB''"
  by (simp add: parse_hex_color_def Let_def split: if_splits)

lemma lower_hex_set: "set u \<subseteq> set hex_chars \<Longrightarrow> set (py_lower u) \<subseteq> set ''0123456789abcdef''"
  unfolding py_lower_def using lower_hex_char by auto

text \<open>Unfolding sets for running the program on the sample inputs.\<close>

lemmas sample_defs = ctl_sample_def env_of_def all_paths_def path_exists_def path_join_def

lemmas run_defs = report_def raise_def write_text_def parse_hex_color_def py_strip_def isspace_def
  hex_chars_def py_lower_def py_lower_char_def

section \<open>Colour validation\<close>

text \<open>
  C3 (as amended). \<^const>\<open>parse_hex_color\<close> first strips the leading and trailing whitespace
  of its input, then one optional leading \<open>#\<close>. It succeeds exactly when six hex digits
  (of either case) remain, and then returns them in lower case, six characters of
  \<open>0123456789abcdef\<close>; every other input fails with the one format error.
\<close>

theorem parse_hex_color_characterisation:
  "(parse_hex_color s = Inr r \<longleftrightarrow>
      (\<exists>u. length u = 6 \<and> set u \<subseteq> set hex_chars \<and>
           (py_strip s = u \<or> py_strip s = CHR ''#'' # u) \<and> r = py_lower u)) \<and>
   (parse_hex_color s = Inr r \<longrightarrow> length r = 6 \<and> set r \<subseteq> set ''0123456789abcdef'') \<and>
   ((\<nexists>u. length u = 6 \<and> set u \<subseteq> set hex_chars \<and>
           (py_strip s = u \<or> py_strip s = CHR ''#'' # u)) \<longrightarrow>
      parse_hex_color s = Inl (ValueError ''Use RRGGBB or #RRGGBB''))"
proof (intro conjI impI)
  show "parse_hex_color s = Inr r \<longleftrightarrow>
      (\<exists>u. length u = 6 \<and> set u \<subseteq> set hex_chars \<and>
           (py_strip s = u \<or> py_strip s = CHR ''#'' # u) \<and> r = py_lower u)"
    using parse_valid parse_Inr_D by blast
next
  assume "parse_hex_color s = Inr r"
  then obtain u where u: "length u = 6" "set u \<subseteq> set hex_chars" "r = py_lower u"
    using parse_Inr_D by blast
  then show "length r = 6" by (simp add: py_lower_def)
  show "set r \<subseteq> set ''0123456789abcdef''" using u lower_hex_set by blast
next
  assume n: "\<nexists>u. length u = 6 \<and> set u \<subseteq> set hex_chars \<and>
           (py_strip s = u \<or> py_strip s = CHR ''#'' # u)"
  show "parse_hex_color s = Inl (ValueError ''Use RRGGBB or #RRGGBB'')"
  proof (cases "parse_hex_color s")
    case (Inl x)
    then show ?thesis using parse_Inl_D by blast
  next
    case (Inr r')
    then show ?thesis using parse_Inr_D n by blast
  qed
qed

theorem parse_hex_color_characterisation_witness:
  "parse_hex_color ''#FF00aa'' = Inr ''ff00aa'' \<and> length ''ff00aa'' = 6 \<and>
   parse_hex_color ''12345'' = Inl (ValueError ''Use RRGGBB or #RRGGBB'') \<and>
   parse_hex_color ''#12345g'' = Inl (ValueError ''Use RRGGBB or #RRGGBB'')"
  using parse_hex_color_characterisation [of "''#FF00aa''" "''ff00aa''"]
    parse_hex_color_characterisation [of "''12345''" "''''"]
    parse_hex_color_characterisation [of "''#12345g''" "''''"]
  by (simp add: parse_hex_color_def py_strip_def isspace_def hex_chars_def py_lower_def
      py_lower_char_def)

text \<open>
  C3 as stated fails: the input \<open>" ff00aa"\<close> has seven characters once an optional leading
  \<open>#\<close> is stripped (there is none), and yet it is accepted, because the whitespace goes
  first.
\<close>

theorem parse_hex_color_counterexample:
  "parse_hex_color '' ff00aa'' = Inr ''ff00aa'' \<and>
   length (if take 1 '' ff00aa'' = ''#'' then drop 1 '' ff00aa'' else '' ff00aa'') \<noteq> 6"
  by (simp add: parse_hex_color_def py_strip_def isspace_def hex_chars_def py_lower_def
      py_lower_char_def)

text \<open>
  C10. Whitespace around the input is stripped before any other check: padding an input with
  whitespace on both sides never changes the result, and a valid colour of six hex digits,
  with or without a leading \<open>#\<close>, padded or not, gives its lower-case form.
\<close>

theorem parse_hex_color_strips_whitespace:
  assumes "\<forall>x\<in>set ws1. isspace x" and "\<forall>x\<in>set ws2. isspace x"
  shows "parse_hex_color (ws1 @ s @ ws2) = parse_hex_color s \<and>
     (length c = 6 \<and> set c \<subseteq> set hex_chars \<longrightarrow>
        parse_hex_color c = Inr (py_lower c) \<and>
        parse_hex_color (CHR ''#'' # c) = Inr (py_lower c) \<and>
        parse_hex_color (ws1 @ c @ ws2) = Inr (py_lower c) \<and>
        parse_hex_color (ws1 @ (CHR ''#'' # c) @ ws2) = Inr (py_lower c))"
proof (intro conjI impI)
  have pad: "parse_hex_color (ws1 @ t @ ws2) = parse_hex_color t" for t
    using strip_pad [OF assms] by (simp add: parse_hex_color_def)
  show "parse_hex_color (ws1 @ s @ ws2) = parse_hex_color s" by (rule pad)
  assume c: "length c = 6 \<and> set c \<subseteq> set hex_chars"
  then have ne: "c \<noteq> []" by auto
  then have "hd c \<in> set hex_chars" "last c \<in> set hex_chars" using c by auto
  then have sp: "\<not> isspace (hd c)" "\<not> isspace (last c)" by (auto dest: hex_not_space)
  have s1: "py_strip c = c" using ne sp by (rule strip_id)
  have "\<not> isspace CHR ''#''" by (simp add: isspace_def)
  then have s2: "py_strip (CHR ''#'' # c) = CHR ''#'' # c"
    using ne sp by (intro strip_id) auto
  show p1: "parse_hex_color c = Inr (py_lower c)" using c s1 by (intro parse_valid) auto
  show p2: "parse_hex_color (CHR ''#'' # c) = Inr (py_lower c)" using c s2 by (intro parse_valid) auto
  show "parse_hex_color (ws1 @ c @ ws2) = Inr (py_lower c)" using pad p1 by simp
  show "parse_hex_color (ws1 @ (CHR ''#'' # c) @ ws2) = Inr (py_lower c)"
    using pad [of "CHR ''#'' # c"] p2 by simp
qed

theorem parse_hex_color_strips_whitespace_witness:
  "parse_hex_color ([CHR 0x20, CHR 0x09] @ ''00AAff'' @ ''\<newline> '') = Inr ''00aaff'' \<and>
   parse_hex_color ([CHR 0x20, CHR 0x09] @ ''#00AAff'' @ ''\<newline> '') = Inr ''00aaff'' \<and>
   parse_hex_color ''00AAff'' = Inr ''00aaff''"
  using parse_hex_color_strips_whitespace [of "[CHR 0x20, CHR 0x09]" "''\<newline> ''" "''''" "''00AAff''"]
  by (simp add: isspace_def hex_chars_def py_lower_def py_lower_char_def)

section \<open>Fan path resolution\<close>

text \<open>
  C1 (as amended). The resolver needs the sysfs base to exist and selects the vendor
  directory by the existence of the directory itself, predator before nitro. It returns the
  \<open>fan_speed\<close> path under the selected directory when that file exists and nothing
  otherwise: nothing when the base is absent, when neither directory exists, and when the
  selected directory has no \<open>fan_speed\<close> file. With the predator directory and its file
  present the predator path wins, whatever the nitro directory holds.
\<close>

theorem detect_sense_fan_path_characterisation:
  "(detect_sense_fan_path c e = Some p \<longleftrightarrow>
      path_exists e (SYSFS_BASE c) \<and> path_exists e p \<and>
      (if path_exists e (SENSE_PRED c) then p = path_join (SENSE_PRED c) ''fan_speed''
       else path_exists e (SENSE_NITRO c) \<and> p = path_join (SENSE_NITRO c) ''fan_speed'')) \<and>
   (\<not> path_exists e (SYSFS_BASE c) \<longrightarrow> detect_sense_fan_path c e = None) \<and>
   (\<not> path_exists e (SENSE_PRED c) \<and> \<not> path_exists e (SENSE_NITRO c) \<longrightarrow>
      detect_sense_fan_path c e = None) \<and>
   (path_exists e (SYSFS_BASE c) \<and> path_exists e (SENSE_PRED c) \<and>
    path_exists e (path_join (SENSE_PRED c) ''fan_speed'') \<longrightarrow>
      detect_sense_fan_path c e = Some (path_join (SENSE_PRED c) ''fan_speed'')) \<and>
   (path_exists e (SYSFS_BASE c) \<and> path_exists e (SENSE_PRED c) \<and>
    \<not> path_exists e (path_join (SENSE_PRED c) ''fan_speed'') \<longrightarrow>
      detect_sense_fan_path c e = None)"
  by (auto simp: detect_sense_fan_path_def Let_def)

theorem detect_sense_fan_path_characterisation_witness:
  "detect_sense_fan_path ctl_sample (env_of all_paths [] None) =
     Some ''/sys/acer-wmi/predator_sense/fan_speed'' \<and>
   detect_sense_fan_path ctl_sample (env_of [] [] None) = None \<and>
   detect_sense_fan_path ctl_sample
     (env_of [''/sys/acer-wmi'', ''/sys/acer-wmi/nitro_sense'',
              ''/sys/acer-wmi/nitro_sense/fan_speed''] [] None) =
     Some ''/sys/acer-wmi/nitro_sense/fan_speed''"
  using detect_sense_fan_path_characterisation
          [of ctl_sample "env_of all_paths [] None" "''/sys/acer-wmi/predator_sense/fan_speed''"]
        detect_sense_fan_path_characterisation [of ctl_sample "env_of [] [] None" "''''"]
        detect_sense_fan_path_characterisation
          [of ctl_sample "env_of [''/sys/acer-wmi'', ''/sys/acer-wmi/nitro_sense'',
              ''/sys/acer-wmi/nitro_sense/fan_speed''] [] None"
              "''/sys/acer-wmi/nitro_sense/fan_speed''"]
  by (simp add: sample_defs)

text \<open>
  C1 as stated fails: with the predator directory present but without a \<open>fan_speed\<close>
  file, and the nitro directory holding one, the resolver returns nothing rather than the
  nitro path.
\<close>

theorem detect_sense_fan_path_counterexample:
  "path_exists (env_of [''/sys/acer-wmi'', ''/sys/acer-wmi/predator_sense'',
        ''/sys/acer-wmi/nitro_sense'', ''/sys/acer-wmi/nitro_sense/fan_speed''] [] None)
     (path_join (SENSE_NITRO ctl_sample) ''fan_speed'') \<and>
   \<not> path_exists (env_of [''/sys/acer-wmi'', ''/sys/acer-wmi/predator_sense'',
        ''/sys/acer-wmi/nitro_sense'', ''/sys/acer-wmi/nitro_sense/fan_speed''] [] None)
     (path_join (SENSE_PRED ctl_sample) ''fan_speed'') \<and>
   detect_sense_fan_path ctl_sample
     (env_of [''/sys/acer-wmi'', ''/sys/acer-wmi/predator_sense'',
        ''/sys/acer-wmi/nitro_sense'', ''/sys/acer-wmi/nitro_sense/fan_speed''] [] None) = None"
  by (simp add: detect_sense_fan_path_def sample_defs)

section \<open>Decimal texts\<close>

lemma below_ten:
  assumes "k < (10::nat)" and "list_all P [0, 1, 2, 3, 4, 5, 6, 7, 8, 9]"
  shows "P k"
proof -
  have "k = 0 \<or> k = 1 \<or> k = 2 \<or> k = 3 \<or> k = 4 \<or> k = 5 \<or> k = 6 \<or> k = 7 \<or> k = 8 \<or> k = 9"
    using assms(1) by arith
  then have "k \<in> set [0, 1, 2, 3, 4, 5, 6, 7, 8, 9]" by simp
  with assms(2) show ?thesis unfolding list_all_iff by blast
qed

lemma dec_digit_facts:
  assumes "k < 10"
  shows "dec_digit k \<in> set ''0123456789''"
    and "index_in ''0123456789'' (dec_digit k) = k"
    and "0 < k \<Longrightarrow> dec_digit k \<noteq> CHR ''0''"
proof -
  show "dec_digit k \<in> set ''0123456789''"
    by (rule below_ten [OF assms]) (simp add: dec_digit_def)
  show "index_in ''0123456789'' (dec_digit k) = k"
    by (rule below_ten [OF assms]) (simp add: dec_digit_def index_in_def)
  have "0 < k \<longrightarrow> dec_digit k \<noteq> CHR ''0''"
    by (rule below_ten [OF assms]) (simp add: dec_digit_def)
  then show "0 < k \<Longrightarrow> dec_digit k \<noteq> CHR ''0''" by simp
qed

lemma py_str_nat_nonempty: "py_str_nat n \<noteq> []"
  by (subst py_str_nat.simps) simp

lemma py_str_nat_digits: "set (py_str_nat n) \<subseteq> set ''0123456789''"
proof (induction n rule: py_str_nat.induct)
  case (1 n)
  show ?case
  proof (cases "n < 10")
    case True
    then show ?thesis using dec_digit_facts(1) [of n] by (subst py_str_nat.simps) simp
  next
    case False
    have "n mod 10 < 10" by simp
    then have "dec_digit (n mod 10) \<in> set ''0123456789''" by (rule dec_digit_facts(1))
    then show ?thesis using False "1.IH" by (subst py_str_nat.simps) simp
  qed
qed

lemma dec_value_snoc: "dec_value (s @ [ch]) = 10 * dec_value s + index_in ''0123456789'' ch"
  by (simp add: dec_value_def)

lemma py_str_nat_value: "dec_value (py_str_nat n) = n"
proof (induction n rule: py_str_nat.induct)
  case (1 n)
  show ?case
  proof (cases "n < 10")
    case True
    then have "dec_value [dec_digit n] = n"
      using dec_digit_facts(2) [of n] by (simp add: dec_value_def)
    then show ?thesis using True by (subst py_str_nat.simps) simp
  next
    case False
    have "index_in ''0123456789'' (dec_digit (n mod 10)) = n mod 10"
      by (rule dec_digit_facts(2)) simp
    moreover from False "1.IH" have "dec_value (py_str_nat (n div 10)) = n div 10" by simp
    ultimately have "dec_value (py_str_nat (n div 10) @ [dec_digit (n mod 10)]) = 10 * (n div 10) + n mod 10"
      by (simp only: dec_value_snoc)
    then show ?thesis using False by (subst py_str_nat.simps) simp
  qed
qed

lemma py_str_nat_no_pad: "0 < n \<Longrightarrow> hd (py_str_nat n) \<noteq> CHR ''0''"
proof (induction n rule: py_str_nat.induct)
  case (1 n)
  show ?case
  proof (cases "n < 10")
    case True
    then show ?thesis using dec_digit_facts(3) [of n] "1.prems" by (subst py_str_nat.simps) simp
  next
    case False
    then have "0 < n div 10" by simp
    then have "hd (py_str_nat (n div 10)) \<noteq> CHR ''0''" using False "1.IH" by simp
    then show ?thesis using False py_str_nat_nonempty [of "n div 10"]
      by (subst py_str_nat.simps) simp
  qed
qed

lemma py_str_nat_short: "n < 10 \<Longrightarrow> length (py_str_nat n) = 1"
  by (subst py_str_nat.simps) simp

lemma py_str_plain:
  assumes "0 \<le> n"
  shows "plain_decimal (py_str n) n"
proof -
  have eq: "py_str n = py_str_nat (nat n)" using assms by (simp add: py_str_def)
  have pad: "1 < length (py_str_nat (nat n)) \<longrightarrow> hd (py_str_nat (nat n)) \<noteq> CHR ''0''"
  proof
    assume "1 < length (py_str_nat (nat n))"
    then have "\<not> nat n < 10" using py_str_nat_short [of "nat n"] by auto
    then have "0 < nat n" by simp
    then show "hd (py_str_nat (nat n)) \<noteq> CHR ''0''" by (rule py_str_nat_no_pad)
  qed
  show ?thesis
    unfolding plain_decimal_def eq
    using py_str_nat_nonempty py_str_nat_digits py_str_nat_value pad assms by simp
qed

lemma py_str_no_newline: "CHR ''\<newline>'' \<notin> set (py_str n) \<and> CHR '','' \<notin> set (py_str n)"
proof -
  have "CHR ''\<newline>'' \<notin> set ''0123456789''" and "CHR '','' \<notin> set ''0123456789''"
    by simp_all
  then have "CHR ''\<newline>'' \<notin> set (py_str_nat k) \<and> CHR '','' \<notin> set (py_str_nat k)" for k
    using py_str_nat_digits [of k] by blast
  then show ?thesis by (simp add: py_str_def)
qed

lemma py_str_zero: "py_str 0 = ''0''"
  by (simp add: py_str_def py_str_nat.simps dec_digit_def)

section \<open>The handlers\<close>

lemma report_raise: "snd (report msg (raise x)) = [] \<and> (\<exists>t. fst (report msg (raise x)) = Error t)"
  by (cases x) (simp_all add: report_def raise_def)

lemma report_write_trace: "snd (report msg (write_text e p s)) = [(p, s)]"
  by (simp add: report_def write_text_def)

lemma detect_nonempty: "detect_sense_fan_path c e = Some p \<Longrightarrow> p \<noteq> []"
  by (auto simp: detect_sense_fan_path_def Let_def path_join_def split: if_splits)

section \<open>Fan payload\<close>

text \<open>
  C6. Once the fan path is resolved, the automatic setting writes the literal \<open>0,0\<close> and a
  newline; a manual setting with both percentages in 0..100 writes the two plain decimal
  texts (digits only, no padding zero, denoting the value), a comma between them and a
  newline after them. A manual 0 is written as it is, so manual 0 and 0 writes the same
  text as the automatic setting.
\<close>

theorem fan_payload:
  assumes "detect_sense_fan_path c e = Some p"
  shows "(auto_active ui \<longrightarrow> snd (apply_fans c e ui) = [(p, ''0,0\<newline>'')]) \<and>
     (\<not> auto_active ui \<and> 0 \<le> cpu_value ui \<and> cpu_value ui \<le> 100 \<and>
      0 \<le> gpu_value ui \<and> gpu_value ui \<le> 100 \<longrightarrow>
        snd (apply_fans c e ui) =
          [(p, py_str (cpu_value ui) @ '','' @ py_str (gpu_value ui) @ ''\<newline>'')] \<and>
        plain_decimal (py_str (cpu_value ui)) (cpu_value ui) \<and>
        plain_decimal (py_str (gpu_value ui)) (gpu_value ui)) \<and>
     (\<not> auto_active ui \<and> cpu_value ui = 0 \<and> gpu_value ui = 0 \<longrightarrow>
        snd (apply_fans c e ui) = [(p, ''0,0\<newline>'')])"
proof -
  have ne: "p \<noteq> []" using assms by (rule detect_nonempty)
  show ?thesis
    using assms ne py_str_plain [of "cpu_value ui"] py_str_plain [of "gpu_value ui"] py_str_zero
    by (auto simp: apply_fans_def Let_def report_write_trace)
qed

theorem fan_payload_witness:
  "snd (apply_fans ctl_sample (env_of all_paths [] None)
          \<lparr>auto_active = False, cpu_value = 40, gpu_value = 60\<rparr>) =
     [(''/sys/acer-wmi/predator_sense/fan_speed'', ''40,60\<newline>'')] \<and>
   snd (apply_fans ctl_sample (env_of all_paths [] None)
          \<lparr>auto_active = True, cpu_value = 40, gpu_value = 60\<rparr>) =
     [(''/sys/acer-wmi/predator_sense/fan_speed'', ''0,0\<newline>'')] \<and>
   snd (apply_fans ctl_sample (env_of all_paths [] None)
          \<lparr>auto_active = False, cpu_value = 0, gpu_value = 0\<rparr>) =
     [(''/sys/acer-wmi/predator_sense/fan_speed'', ''0,0\<newline>'')] \<and>
   plain_decimal ''40'' 40"
proof -
  have d: "detect_sense_fan_path ctl_sample (env_of all_paths [] None) =
      Some ''/sys/acer-wmi/predator_sense/fan_speed''"
    by (simp add: detect_sense_fan_path_def sample_defs)
  have s: "py_str 40 = ''40''" "py_str 60 = ''60''" "py_str 0 = ''0''"
    by (simp_all add: py_str_def py_str_nat.simps dec_digit_def)
  show ?thesis
    using fan_payload [OF d, of "\<lparr>auto_active = False, cpu_value = 40, gpu_value = 60\<rparr>"]
      fan_payload [OF d, of "\<lparr>auto_active = True, cpu_value = 40, gpu_value = 60\<rparr>"]
      fan_payload [OF d, of "\<lparr>auto_active = False, cpu_value = 0, gpu_value = 0\<rparr>"]
    by (simp add: s)
qed

section \<open>Failures before and at the write\<close>

text \<open>
  C7. In each of the four apply operations, a failure of path resolution or of input
  validation ends the run with an error notice and without any call of the writer: the
  stages after the failing one do not run.
\<close>

theorem prewrite_failure_writes_nothing:
  "(\<not> path_exists e (KB_PER_ZONE c) \<or> (\<exists>x. static_colors sui = Inl x) \<longrightarrow>
      snd (apply_static c e sui) = [] \<and> (\<exists>t. fst (apply_static c e sui) = Error t)) \<and>
   (\<not> path_exists e (KB_FOUR_MODE c) \<or> \<not> mode_selected eui < length (mode_names c) \<or>
    (\<exists>x. effect_rgb eui = Inl x) \<longrightarrow>
      snd (apply_effect c e eui) = [] \<and> (\<exists>t. fst (apply_effect c e eui) = Error t)) \<and>
   (\<not> path_exists e (PLATFORM_PROFILE c) \<or> (\<exists>x. profile_sel choices k = Inl x) \<longrightarrow>
      snd (apply_profile c e choices k) = [] \<and>
      (\<exists>t. fst (apply_profile c e choices k) = Error t)) \<and>
   (detect_sense_fan_path c e = None \<or>
    (\<not> auto_active fui \<and>
     \<not> (0 \<le> cpu_value fui \<and> cpu_value fui \<le> 100 \<and> 0 \<le> gpu_value fui \<and> gpu_value fui \<le> 100)) \<longrightarrow>
      snd (apply_fans c e fui) = [] \<and> (\<exists>t. fst (apply_fans c e fui) = Error t))"
proof (intro conjI impI)
  assume "\<not> path_exists e (KB_PER_ZONE c) \<or> (\<exists>x. static_colors sui = Inl x)"
  then have "\<exists>x. apply_static c e sui = report ''Keyboard static colors applied'' (raise x)"
    by (auto simp: apply_static_def Let_def)
  then show "snd (apply_static c e sui) = []" "\<exists>t. fst (apply_static c e sui) = Error t"
    using report_raise by auto
next
  assume "\<not> path_exists e (KB_FOUR_MODE c) \<or> \<not> mode_selected eui < length (mode_names c) \<or>
    (\<exists>x. effect_rgb eui = Inl x)"
  then have "\<exists>x. apply_effect c e eui = report ''Keyboard effect applied'' (raise x)"
    by (auto simp: apply_effect_def effect_with_mode_def Let_def)
  then show "snd (apply_effect c e eui) = []" "\<exists>t. fst (apply_effect c e eui) = Error t"
    using report_raise by auto
next
  assume "\<not> path_exists e (PLATFORM_PROFILE c) \<or> (\<exists>x. profile_sel choices k = Inl x)"
  then have "\<exists>x. apply_profile c e choices k = report [] (raise x)"
    by (auto simp: apply_profile_def)
  then show "snd (apply_profile c e choices k) = []"
    "\<exists>t. fst (apply_profile c e choices k) = Error t"
    using report_raise by auto
next
  assume a: "detect_sense_fan_path c e = None \<or>
    (\<not> auto_active fui \<and>
     \<not> (0 \<le> cpu_value fui \<and> cpu_value fui \<le> 100 \<and> 0 \<le> gpu_value fui \<and> gpu_value fui \<le> 100))"
  have "\<exists>x. apply_fans c e fui = report ''Fan settings applied'' (raise x)"
  proof (cases "detect_sense_fan_path c e")
    case None
    then show ?thesis by (auto simp: apply_fans_def)
  next
    case (Some p)
    then show ?thesis using a by (auto simp: apply_fans_def Let_def)
  qed
  then show "snd (apply_fans c e fui) = []" "\<exists>t. fst (apply_fans c e fui) = Error t"
    using report_raise by auto
qed

theorem prewrite_failure_writes_nothing_witness:
  "apply_static ctl_sample (env_of [] [] None)
     \<lparr>single_active = True, single_text = ''00aaff'', zone_texts = [], bright_value = 100\<rparr> =
     (Error ''Error: Missing per_zone_mode at /sys/acer-wmi/four_zoned_kb/per_zone_mode'', []) \<and>
   apply_static ctl_sample (env_of all_paths [] None)
     \<lparr>single_active = True, single_text = ''00aafg'', zone_texts = [], bright_value = 100\<rparr> =
     (Error ''Error: Use RRGGBB or #RRGGBB'', []) \<and>
   apply_effect ctl_sample (env_of all_paths [] None)
     \<lparr>mode_selected = 4, speed_value = 1, bright2_value = 100, dir_value = 2, color_text = []\<rparr> =
     (Error ''Error: list index out of range'', []) \<and>
   apply_profile ctl_sample (env_of [] [] None) [''balanced''] 0 =
     (Error ''Error: Missing /sys/firmware/acpi/platform_profile'', []) \<and>
   apply_fans ctl_sample (env_of all_paths [] None)
     \<lparr>auto_active = False, cpu_value = 140, gpu_value = 60\<rparr> =
     (Error ''Error: Percentages must be 0-100'', [])"
  using prewrite_failure_writes_nothing
      [where c = ctl_sample and e = "env_of [] [] None"
         and sui = "\<lparr>single_active = True, single_text = ''00aaff'', zone_texts = [],
                      bright_value = 100\<rparr>"
         and choices = "[''balanced'']" and k = 0]
    prewrite_failure_writes_nothing
      [where c = ctl_sample and e = "env_of all_paths [] None"
         and sui = "\<lparr>single_active = True, single_text = ''00aafg'', zone_texts = [],
                      bright_value = 100\<rparr>"
         and eui = "\<lparr>mode_selected = 4, speed_value = 1, bright2_value = 100, dir_value = 2,
                      color_text = []\<rparr>"
         and fui = "\<lparr>auto_active = False, cpu_value = 140, gpu_value = 60\<rparr>"]
  by (simp add: apply_static_def apply_effect_def apply_profile_def apply_fans_def
      static_colors_def mode_names_def detect_sense_fan_path_def run_defs sample_defs)

section \<open>Keyboard effect\<close>

lemma strip_strip: "py_strip (py_strip s) = py_strip s"
proof (cases "py_strip s = []")
  case True
  have "py_strip [] = []" by (simp add: py_strip_def)
  with True show ?thesis by simp
next
  case False
  then show ?thesis using strip_ends [of s] by (intro strip_id) auto
qed

lemma parse_strip: "parse_hex_color (py_strip s) = parse_hex_color s"
  by (simp add: parse_hex_color_def strip_strip)

lemma parse_lower:
  assumes "parse_hex_color s = Inr col"
  shows "length col = 6 \<and> set col \<subseteq> set ''0123456789abcdef''"
proof -
  from parse_Inr_D [OF assms] obtain u where
    u: "length u = 6" "set u \<subseteq> set hex_chars" "col = py_lower u" by blast
  then show ?thesis using lower_hex_set [of u] by (simp add: py_lower_def)
qed

lemma parse_nonempty: "parse_hex_color s = Inr col \<Longrightarrow> py_strip s \<noteq> []"
  by (auto simp: parse_hex_color_def Let_def split: if_splits)

lemma lower_digit:
  assumes "ch \<in> set ''0123456789abcdef''"
  shows "hex_val ch = Some (index_in ''0123456789abcdef'' ch) \<and> index_in ''0123456789abcdef'' ch < 16 \<and>
     ch \<noteq> CHR ''\<newline>'' \<and> ch \<noteq> CHR '','' \<and> ch \<noteq> CHR ''#''"
proof -
  have "list_all (\<lambda>x. hex_val x = Some (index_in ''0123456789abcdef'' x) \<and>
      index_in ''0123456789abcdef'' x < 16 \<and> x \<noteq> CHR ''\<newline>'' \<and> x \<noteq> CHR '','' \<and> x \<noteq> CHR ''#'')
      ''0123456789abcdef''"
    by (simp add: hex_val_def index_in_def)
  with assms show ?thesis unfolding list_all_iff by blast
qed

lemma six_chars:
  assumes "length col = 6"
  obtains a b c d e f where "col = [a, b, c, d, e, f]"
proof -
  from assms have "\<exists>a b c d e f. col = [a, b, c, d, e, f]"
    by (auto simp: eval_nat_numeral length_Suc_conv)
  then show ?thesis using that by blast
qed

lemma color_rgb_valid:
  assumes "length col = 6" and "set col \<subseteq> set ''0123456789abcdef''"
  shows "color_rgb col = Inr (hex_pair col 0, hex_pair col 2, hex_pair col 4)"
proof -
  from assms(1) obtain a b c d e f where col: "col = [a, b, c, d, e, f]" by (rule six_chars)
  have "hex_val x = Some (index_in ''0123456789abcdef'' x)" if "x \<in> set col" for x
    using that assms(2) lower_digit [of x] by blast
  then have v: "hex_val a = Some (index_in ''0123456789abcdef'' a)"
    "hex_val b = Some (index_in ''0123456789abcdef'' b)"
    "hex_val c = Some (index_in ''0123456789abcdef'' c)"
    "hex_val d = Some (index_in ''0123456789abcdef'' d)"
    "hex_val e = Some (index_in ''0123456789abcdef'' e)"
    "hex_val f = Some (index_in ''0123456789abcdef'' f)"
    by (simp_all add: col)
  show ?thesis
    by (simp add: col color_rgb_def py_int16_def v hex_pair_def)
qed

lemma hex_pair_byte:
  assumes "length col = 6" and "set col \<subseteq> set ''0123456789abcdef''" and "i < 5"
  shows "0 \<le> hex_pair col i \<and> hex_pair col i \<le> 255"
proof -
  have "index_in ''0123456789abcdef'' (col ! j) < 16" if "j < 6" for j
  proof -
    have "col ! j \<in> set col" using that assms(1) by simp
    then show ?thesis using assms(2) lower_digit [of "col ! j"] by blast
  qed
  from this [of i] this [of "i + 1"] assms(3) show ?thesis by (simp add: hex_pair_def)
qed

lemma join_no_newline:
  assumes "\<forall>t\<in>set ts. CHR ''\<newline>'' \<notin> set t"
  shows "CHR ''\<newline>'' \<notin> set (py_join '','' ts)"
  using assms by (induction "'',''" ts rule: py_join.induct) auto

lemma one_line_snoc: "CHR ''\<newline>'' \<notin> set body \<Longrightarrow> one_line (body @ ''\<newline>'')"
  by (simp add: one_line_def butlast_append)

lemma effect_rgb_cases:
  "(py_strip (color_text ui) = [] \<longrightarrow> effect_rgb ui = Inr (0, 0, 0)) \<and>
   (parse_hex_color (color_text ui) = Inr col \<longrightarrow>
      effect_rgb ui = Inr (hex_pair col 0, hex_pair col 2, hex_pair col 4))"
proof (intro conjI impI)
  assume "py_strip (color_text ui) = []"
  then show "effect_rgb ui = Inr (0, 0, 0)" by (simp add: effect_rgb_def)
next
  assume p: "parse_hex_color (color_text ui) = Inr col"
  then have "py_strip (color_text ui) \<noteq> []" by (rule parse_nonempty)
  moreover have "color_rgb col = Inr (hex_pair col 0, hex_pair col 2, hex_pair col 4)"
    using parse_lower [OF p] by (intro color_rgb_valid) auto
  ultimately show "effect_rgb ui = Inr (hex_pair col 0, hex_pair col 2, hex_pair col 4)"
    using p by (simp add: effect_rgb_def Let_def parse_strip)
qed

text \<open>
  C4. With the device file present and a mode selected, the effect payload is the decimal
  texts of the mode id, speed, brightness, direction, red, green and blue, joined by commas
  and ended by a single newline. Red, green and blue are 0 when the colour entry is blank,
  and otherwise the base-16 values (each in 0..255) of the digit pairs at positions 0-1,
  2-3 and 4-5 of the parsed colour. The decimal text of a non-negative number is plain:
  digits only, no padding zero.
\<close>

theorem effect_payload:
  assumes "path_exists e (KB_FOUR_MODE c)"
    and "mode_selected ui < length (mode_names c)"
    and "name = mode_names c ! mode_selected ui"
  shows "(\<exists>i. map_of (MODE_NAME_TO_ID c) name = Some i \<and> mode_id_of c name = i) \<and>
     (py_strip (color_text ui) = [] \<longrightarrow>
        snd (apply_effect c e ui) =
          [(KB_FOUR_MODE c,
            py_str (mode_id_of c name) @ '','' @ py_str (speed_value ui) @ '','' @
            py_str (bright2_value ui) @ '','' @ py_str (dir_value ui) @ '',0,0,0\<newline>'')]) \<and>
     (parse_hex_color (color_text ui) = Inr col \<longrightarrow>
        snd (apply_effect c e ui) =
          [(KB_FOUR_MODE c,
            py_str (mode_id_of c name) @ '','' @ py_str (speed_value ui) @ '','' @
            py_str (bright2_value ui) @ '','' @ py_str (dir_value ui) @ '','' @
            py_str (hex_pair col 0) @ '','' @ py_str (hex_pair col 2) @ '','' @
            py_str (hex_pair col 4) @ ''\<newline>'')] \<and>
        0 \<le> hex_pair col 0 \<and> hex_pair col 0 \<le> 255 \<and>
        0 \<le> hex_pair col 2 \<and> hex_pair col 2 \<le> 255 \<and>
        0 \<le> hex_pair col 4 \<and> hex_pair col 4 \<le> 255) \<and>
     (\<forall>w\<in>set (snd (apply_effect c e ui)). one_line (snd w)) \<and>
     (0 \<le> n \<longrightarrow> plain_decimal (py_str n) n)"
proof (intro conjI impI ballI)
  have "name \<in> fst ` set (MODE_NAME_TO_ID c)"
    using assms(2,3) unfolding mode_names_def by (metis list.set_map nth_mem)
  then obtain i where "map_of (MODE_NAME_TO_ID c) name = Some i"
    by (metis map_of_eq_None_iff not_Some_eq)
  then show "\<exists>i. map_of (MODE_NAME_TO_ID c) name = Some i \<and> mode_id_of c name = i"
    by (simp add: mode_id_of_def)
next
  assume "py_strip (color_text ui) = []"
  then have "effect_rgb ui = Inr (0, 0, 0)" using effect_rgb_cases by blast
  then show "snd (apply_effect c e ui) =
          [(KB_FOUR_MODE c,
            py_str (mode_id_of c name) @ '','' @ py_str (speed_value ui) @ '','' @
            py_str (bright2_value ui) @ '','' @ py_str (dir_value ui) @ '',0,0,0\<newline>'')]"
    using assms
    by (simp add: apply_effect_def effect_with_mode_def Let_def report_write_trace py_str_zero)
next
  assume p: "parse_hex_color (color_text ui) = Inr col"
  then have "effect_rgb ui = Inr (hex_pair col 0, hex_pair col 2, hex_pair col 4)"
    using effect_rgb_cases by blast
  then show "snd (apply_effect c e ui) =
          [(KB_FOUR_MODE c,
            py_str (mode_id_of c name) @ '','' @ py_str (speed_value ui) @ '','' @
            py_str (bright2_value ui) @ '','' @ py_str (dir_value ui) @ '','' @
            py_str (hex_pair col 0) @ '','' @ py_str (hex_pair col 2) @ '','' @
            py_str (hex_pair col 4) @ ''\<newline>'')]"
    using assms
    by (simp add: apply_effect_def effect_with_mode_def Let_def report_write_trace)
  have v: "length col = 6" "set col \<subseteq> set ''0123456789abcdef''"
    using parse_lower [OF p] by auto
  show "0 \<le> hex_pair col 0" "hex_pair col 0 \<le> 255" using hex_pair_byte [OF v, of 0] by auto
  show "0 \<le> hex_pair col 2" "hex_pair col 2 \<le> 255" using hex_pair_byte [OF v, of 2] by auto
  show "0 \<le> hex_pair col 4" "hex_pair col 4 \<le> 255" using hex_pair_byte [OF v, of 4] by auto
next
  fix w assume w: "w \<in> set (snd (apply_effect c e ui))"
  show "one_line (snd w)"
  proof (cases "effect_rgb ui")
    case (Inl x)
    then have "snd (apply_effect c e ui) = []"
      using assms by (simp add: apply_effect_def effect_with_mode_def report_raise)
    with w show ?thesis by simp
  next
    case (Inr rgb)
    obtain r g b where rgb: "rgb = (r, g, b)" by (cases rgb)
    have "CHR ''\<newline>'' \<notin> set (py_join '',''
        (map py_str [mode_id_of c name, speed_value ui, bright2_value ui, dir_value ui, r, g, b]))"
      by (rule join_no_newline) (use py_str_no_newline in auto)
    then have "one_line (py_join '',''
        (map py_str [mode_id_of c name, speed_value ui, bright2_value ui, dir_value ui, r, g, b])
        @ ''\<newline>'')"
      by (rule one_line_snoc)
    moreover have "snd (apply_effect c e ui) = [(KB_FOUR_MODE c, py_join '',''
        (map py_str [mode_id_of c name, speed_value ui, bright2_value ui, dir_value ui, r, g, b])
        @ ''\<newline>'')]"
      using assms Inr rgb
      by (simp add: apply_effect_def effect_with_mode_def Let_def report_write_trace)
    ultimately show ?thesis using w by simp
  qed
next
  assume "0 \<le> n"
  then show "plain_decimal (py_str n) n" by (rule py_str_plain)
qed

theorem effect_payload_witness:
  "snd (apply_effect ctl_sample (env_of all_paths [] None)
      \<lparr>mode_selected = 3, speed_value = 1, bright2_value = 100, dir_value = 2,
        color_text = ''ff00aa''\<rparr>) =
     [(''/sys/acer-wmi/four_zoned_kb/four_zone_mode'', ''3,1,100,2,255,0,170\<newline>'')] \<and>
   snd (apply_effect ctl_sample (env_of all_paths [] None)
      \<lparr>mode_selected = 3, speed_value = 1, bright2_value = 100, dir_value = 2,
        color_text = []\<rparr>) =
     [(''/sys/acer-wmi/four_zoned_kb/four_zone_mode'', ''3,1,100,2,0,0,0\<newline>'')] \<and>
   hex_pair ''ff00aa'' 0 = 255 \<and> hex_pair ''ff00aa'' 2 = 0 \<and> hex_pair ''ff00aa'' 4 = 170 \<and>
   one_line ''3,1,100,2,255,0,170\<newline>'' \<and> plain_decimal ''100'' 100"
proof -
  let ?e = "env_of all_paths [] None"
  let ?u1 = "\<lparr>mode_selected = 3, speed_value = 1, bright2_value = 100, dir_value = 2,
        color_text = ''ff00aa''\<rparr>"
  let ?u2 = "\<lparr>mode_selected = 3, speed_value = 1, bright2_value = 100, dir_value = 2,
        color_text = []\<rparr>"
  have s: "py_str 0 = ''0''" "py_str 1 = ''1''" "py_str 2 = ''2''" "py_str 3 = ''3''"
    "py_str 100 = ''100''" "py_str 255 = ''255''" "py_str 170 = ''170''"
    by (simp_all add: py_str_def py_str_nat.simps dec_digit_def)
  have h: "hex_pair ''ff00aa'' 0 = 255" "hex_pair ''ff00aa'' 2 = 0" "hex_pair ''ff00aa'' 4 = 170"
    by (simp_all add: hex_pair_def index_in_def)
  have p: "parse_hex_color ''ff00aa'' = Inr ''ff00aa''" "py_strip [] = []"
    by (simp_all add: run_defs)
  have m: "mode_id_of ctl_sample (mode_names ctl_sample ! 3) = 3"
    "KB_FOUR_MODE ctl_sample = ''/sys/acer-wmi/four_zoned_kb/four_zone_mode''"
    by (simp_all add: mode_id_of_def mode_names_def ctl_sample_def)
  have a: "path_exists ?e (KB_FOUR_MODE ctl_sample)" by (simp add: sample_defs)
  have b: "mode_selected ?u1 < length (mode_names ctl_sample)"
    "mode_selected ?u2 < length (mode_names ctl_sample)"
    by (simp_all add: mode_names_def ctl_sample_def)
  have t: "snd (apply_effect ctl_sample ?e ?u1) =
     [(''/sys/acer-wmi/four_zoned_kb/four_zone_mode'', ''3,1,100,2,255,0,170\<newline>'')]"
    and d: "plain_decimal ''100'' 100"
    using effect_payload [OF a b(1) refl, where col = "''ff00aa''" and n = 100]
    by (simp_all add: s h p m)
  have "\<forall>w\<in>set (snd (apply_effect ctl_sample ?e ?u1)). one_line (snd w)"
    using effect_payload [OF a b(1) refl, where col = "''ff00aa''" and n = 100] by blast
  then have "one_line ''3,1,100,2,255,0,170\<newline>''" unfolding t by simp
  moreover note t d
  moreover have "snd (apply_effect ctl_sample ?e ?u2) =
     [(''/sys/acer-wmi/four_zoned_kb/four_zone_mode'', ''3,1,100,2,0,0,0\<newline>'')]"
    using effect_payload [OF a b(2) refl, where n = 100]
    by (simp add: s p m)
  ultimately show ?thesis using h by simp
qed

section \<open>Keyboard static colours\<close>

text \<open>
  C5. With the device file present, the static payload is the four colours and the
  brightness joined by commas and ended by a single newline. In single-colour mode the one
  parsed colour fills all four places; in per-zone mode the four parsed colours come in
  the order of the zones. Every parsed colour is six lower-case hex digits without
  \<open>#\<close>, and the brightness, when not negative, is its plain decimal text.
\<close>

theorem static_payload:
  assumes "path_exists e (KB_PER_ZONE c)"
  shows "(single_active ui \<and> parse_hex_color (single_text ui) = Inr col \<longrightarrow>
        snd (apply_static c e ui) =
          [(KB_PER_ZONE c,
            col @ '','' @ col @ '','' @ col @ '','' @ col @ '','' @ py_str (bright_value ui) @
            ''\<newline>'')]) \<and>
     (\<not> single_active ui \<and> zone_texts ui = [t1, t2, t3, t4] \<and>
      parse_hex_color t1 = Inr c1 \<and> parse_hex_color t2 = Inr c2 \<and>
      parse_hex_color t3 = Inr c3 \<and> parse_hex_color t4 = Inr c4 \<longrightarrow>
        snd (apply_static c e ui) =
          [(KB_PER_ZONE c,
            c1 @ '','' @ c2 @ '','' @ c3 @ '','' @ c4 @ '','' @ py_str (bright_value ui) @
            ''\<newline>'')]) \<and>
     (parse_hex_color t = Inr k \<longrightarrow>
        length k = 6 \<and> set k \<subseteq> set ''0123456789abcdef'' \<and> CHR ''#'' \<notin> set k \<and>
        one_line (k @ '','' @ k @ '','' @ k @ '','' @ k @ '','' @ py_str (bright_value ui) @
          ''\<newline>'')) \<and>
     (0 \<le> bright_value ui \<longrightarrow> plain_decimal (py_str (bright_value ui)) (bright_value ui))"
proof (intro conjI impI)
  assume "single_active ui \<and> parse_hex_color (single_text ui) = Inr col"
  then have "static_colors ui = Inr [col]" by (simp add: static_colors_def)
  then show "snd (apply_static c e ui) =
          [(KB_PER_ZONE c,
            col @ '','' @ col @ '','' @ col @ '','' @ col @ '','' @ py_str (bright_value ui) @
            ''\<newline>'')]"
    using assms by (simp add: apply_static_def Let_def report_write_trace eval_nat_numeral)
next
  assume "\<not> single_active ui \<and> zone_texts ui = [t1, t2, t3, t4] \<and>
      parse_hex_color t1 = Inr c1 \<and> parse_hex_color t2 = Inr c2 \<and>
      parse_hex_color t3 = Inr c3 \<and> parse_hex_color t4 = Inr c4"
  then have "static_colors ui = Inr [c1, c2, c3, c4]" by (simp add: static_colors_def)
  then show "snd (apply_static c e ui) =
          [(KB_PER_ZONE c,
            c1 @ '','' @ c2 @ '','' @ c3 @ '','' @ c4 @ '','' @ py_str (bright_value ui) @
            ''\<newline>'')]"
    using assms by (simp add: apply_static_def Let_def report_write_trace)
next
  assume p: "parse_hex_color t = Inr k"
  from parse_lower [OF p] show "length k = 6" "set k \<subseteq> set ''0123456789abcdef''" by auto
  have n: "CHR ''\<newline>'' \<notin> set k \<and> CHR ''#'' \<notin> set k"
    using parse_lower [OF p] lower_digit by blast
  then show "CHR ''#'' \<notin> set k" by simp
  have "CHR ''\<newline>'' \<notin> set (k @ '','' @ k @ '','' @ k @ '','' @ k @ '','' @ py_str (bright_value ui))"
    using n py_str_no_newline [of "bright_value ui"] by simp
  then have "one_line ((k @ '','' @ k @ '','' @ k @ '','' @ k @ '','' @ py_str (bright_value ui)) @
          ''\<newline>'')"
    by (rule one_line_snoc)
  then show "one_line (k @ '','' @ k @ '','' @ k @ '','' @ k @ '','' @ py_str (bright_value ui) @
          ''\<newline>'')"
    by simp
next
  assume "0 \<le> bright_value ui"
  then show "plain_decimal (py_str (bright_value ui)) (bright_value ui)" by (rule py_str_plain)
qed

theorem static_payload_witness:
  "snd (apply_static ctl_sample (env_of all_paths [] None)
      \<lparr>single_active = True, single_text = ''#00AAff'', zone_texts = [], bright_value = 100\<rparr>) =
     [(''/sys/acer-wmi/four_zoned_kb/per_zone_mode'', ''00aaff,00aaff,00aaff,00aaff,100\<newline>'')] \<and>
   snd (apply_static ctl_sample (env_of all_paths [] None)
      \<lparr>single_active = False, single_text = [],
        zone_texts = [''ff0000'', ''00ff00'', ''0000ff'', ''abcdef''], bright_value = 7\<rparr>) =
     [(''/sys/acer-wmi/four_zoned_kb/per_zone_mode'', ''ff0000,00ff00,0000ff,abcdef,7\<newline>'')] \<and>
   one_line ''00aaff,00aaff,00aaff,00aaff,100\<newline>'' \<and> plain_decimal ''100'' 100"
proof -
  let ?e = "env_of all_paths [] None"
  let ?u1 = "\<lparr>single_active = True, single_text = ''#00AAff'', zone_texts = [],
        bright_value = 100\<rparr>"
  let ?u2 = "\<lparr>single_active = False, single_text = [],
        zone_texts = [''ff0000'', ''00ff00'', ''0000ff'', ''abcdef''], bright_value = 7\<rparr>"
  have s: "py_str 7 = ''7''" "py_str 100 = ''100''"
    by (simp_all add: py_str_def py_str_nat.simps dec_digit_def)
  have p: "parse_hex_color ''#00AAff'' = Inr ''00aaff''"
    "parse_hex_color ''ff0000'' = Inr ''ff0000''" "parse_hex_color ''00ff00'' = Inr ''00ff00''"
    "parse_hex_color ''0000ff'' = Inr ''0000ff''" "parse_hex_color ''abcdef'' = Inr ''abcdef''"
    by (simp_all add: run_defs)
  have k: "KB_PER_ZONE ctl_sample = ''/sys/acer-wmi/four_zoned_kb/per_zone_mode''"
    by (simp add: ctl_sample_def)
  have a: "path_exists ?e (KB_PER_ZONE ctl_sample)" by (simp add: sample_defs)
  show ?thesis
    using static_payload [OF a, where ui = ?u1 and col = "''00aaff''" and t = "''#00AAff''"
        and k = "''00aaff''"]
      static_payload [OF a, where ui = ?u2 and ?t1.0 = "''ff0000''" and ?t2.0 = "''00ff00''"
        and ?t3.0 = "''0000ff''" and ?t4.0 = "''abcdef''" and ?c1.0 = "''ff0000''"
        and ?c2.0 = "''00ff00''" and ?c3.0 = "''0000ff''" and ?c4.0 = "''abcdef''"]
    by (simp add: s p k)
qed

section \<open>Power profile choices\<close>

lemma split_cut: "py_split_from tok s = filter (\<lambda>t. t \<noteq> []) (cut_each tok s)"
  by (induction s arbitrary: tok) auto

lemma split_leading:
  assumes "\<forall>x\<in>set ws. isspace x"
  shows "py_split_from [] (ws @ s) = py_split_from [] s"
  using assms by (induction ws) auto

lemma split_blank:
  assumes "\<forall>x\<in>set ws. isspace x"
  shows "py_split_from tok ws = (if tok = [] then [] else [tok])"
  using assms by (induction ws arbitrary: tok) auto

lemma split_trailing:
  assumes "\<forall>x\<in>set ws. isspace x"
  shows "py_split_from tok (s @ ws) = py_split_from tok s"
proof (induction s arbitrary: tok)
  case Nil
  then show ?case using split_blank [OF assms] by simp
next
  case (Cons a s)
  then show ?case by simp
qed

lemma strip_decomp:
  "\<exists>ws1 ws2. s = ws1 @ py_strip s @ ws2 \<and> (\<forall>x\<in>set ws1. isspace x) \<and> (\<forall>x\<in>set ws2. isspace x)"
proof -
  let ?d = "dropWhile isspace s"
  let ?w1 = "takeWhile isspace s"
  let ?w2 = "rev (takeWhile isspace (rev ?d))"
  have "py_strip s @ ?w2 = rev (takeWhile isspace (rev ?d) @ dropWhile isspace (rev ?d))"
    by (simp only: py_strip_def rev_append)
  also have "\<dots> = rev (rev ?d)" by (simp only: takeWhile_dropWhile_id)
  also have "\<dots> = ?d" by (simp only: rev_rev_ident)
  finally have d: "?d = py_strip s @ ?w2" by (rule sym)
  have "s = ?w1 @ ?d" by simp
  then have "s = ?w1 @ py_strip s @ ?w2" using d by simp
  moreover have "\<forall>x\<in>set ?w1. isspace x" by (auto dest: set_takeWhileD)
  moreover have "\<forall>x\<in>set ?w2. isspace x" by (auto dest: set_takeWhileD)
  ultimately show ?thesis by blast
qed

lemma split_strip: "py_split (py_strip s) = py_split s"
proof -
  obtain ws1 ws2 where w: "s = ws1 @ py_strip s @ ws2" "\<forall>x\<in>set ws1. isspace x"
    "\<forall>x\<in>set ws2. isspace x"
    using strip_decomp by blast
  have "py_split_from [] (ws1 @ py_strip s @ ws2) = py_split_from [] (py_strip s)"
    using split_leading [OF w(2)] split_trailing [OF w(3)] by simp
  then show ?thesis using w(1) by (simp add: py_split_def)
qed

lemma read_choices: "filter (\<lambda>t. t \<noteq> []) (py_split (py_strip raw)) = decodeChoices raw"
  by (simp only: split_strip) (simp add: py_split_def split_cut decodeChoices_def)

lemma cut_each_concat: "concat (cut_each tok s) = tok @ filter (\<lambda>ch. \<not> isspace ch) s"
  by (induction s arbitrary: tok) auto

lemma cut_each_tokens:
  assumes "t \<in> set (cut_each tok s)" and "\<forall>ch\<in>set tok. \<not> isspace ch"
  shows "\<forall>ch\<in>set t. \<not> isspace ch"
  using assms
proof (induction s arbitrary: tok)
  case Nil
  then show ?case by simp
next
  case (Cons a s)
  show ?case
  proof (cases "isspace a")
    case True
    with Cons.prems(1) have "t = tok \<or> t \<in> set (cut_each [] s)" by simp
    then show ?thesis
    proof
      assume "t = tok"
      with Cons.prems(2) show ?thesis by simp
    next
      assume "t \<in> set (cut_each [] s)"
      then show ?thesis by (rule Cons.IH) simp
    qed
  next
    case False
    with Cons.prems(1) have "t \<in> set (cut_each (tok @ [a]) s)" by simp
    moreover have "\<forall>ch\<in>set (tok @ [a]). \<not> isspace ch" using False Cons.prems(2) by simp
    ultimately show ?thesis by (rule Cons.IH)
  qed
qed

lemma concat_drop_empty: "concat (filter (\<lambda>t. t \<noteq> []) xs) = concat xs"
  by (induction xs) auto

text \<open>
  C9. The choices offered are the tokens of the choices file, cut at whitespace with the
  empty tokens dropped, whenever the file exists, can be read and holds a token; they are
  the three default names when the file is absent, cannot be read or holds no token. The
  tokens keep every character that is not whitespace, in order and with repetitions; no
  token is empty or holds whitespace.
\<close>

theorem load_choices_tokens:
  "(path_exists e (PLATFORM_PROFILE_CHOICES c) \<and>
    file_read e (PLATFORM_PROFILE_CHOICES c) = Inr raw \<and> decodeChoices raw \<noteq> [] \<longrightarrow>
      load_choices c e = decodeChoices raw) \<and>
   (\<not> path_exists e (PLATFORM_PROFILE_CHOICES c) \<or>
    file_read e (PLATFORM_PROFILE_CHOICES c) = Inl x \<or>
    file_read e (PLATFORM_PROFILE_CHOICES c) = Inr raw \<and> decodeChoices raw = [] \<longrightarrow>
      load_choices c e = [''balanced'', ''performance'', ''power-saver'']) \<and>
   concat (decodeChoices raw) = filter (\<lambda>ch. \<not> isspace ch) raw \<and>
   (\<forall>t\<in>set (decodeChoices raw). t \<noteq> [] \<and> (\<forall>ch\<in>set t. \<not> isspace ch))"
proof (intro conjI impI ballI)
  assume "path_exists e (PLATFORM_PROFILE_CHOICES c) \<and>
    file_read e (PLATFORM_PROFILE_CHOICES c) = Inr raw \<and> decodeChoices raw \<noteq> []"
  then show "load_choices c e = decodeChoices raw"
    by (simp add: load_choices_def read_text_def Let_def read_choices)
next
  assume "\<not> path_exists e (PLATFORM_PROFILE_CHOICES c) \<or>
    file_read e (PLATFORM_PROFILE_CHOICES c) = Inl x \<or>
    file_read e (PLATFORM_PROFILE_CHOICES c) = Inr raw \<and> decodeChoices raw = []"
  then show "load_choices c e = [''balanced'', ''performance'', ''power-saver'']"
    by (auto simp: load_choices_def read_text_def Let_def read_choices default_choices_def)
next
  show "concat (decodeChoices raw) = filter (\<lambda>ch. \<not> isspace ch) raw"
    by (simp add: decodeChoices_def concat_drop_empty cut_each_concat)
next
  fix t assume t: "t \<in> set (decodeChoices raw)"
  then show "t \<noteq> []" by (simp add: decodeChoices_def)
  from t have "t \<in> set (cut_each [] raw)" by (simp add: decodeChoices_def)
  then have "\<forall>ch\<in>set t. \<not> isspace ch" by (rule cut_each_tokens) simp
  then show "\<And>ch. ch \<in> set t \<Longrightarrow> \<not> isspace ch" by blast
qed

theorem load_choices_tokens_witness:
  "load_choices ctl_sample
     (env_of all_paths [CHR ''l'', CHR ''o'', CHR ''w'', CHR 0x20, CHR 0x20, CHR ''b'', CHR ''a'',
                        CHR ''l'', CHR 0x09, CHR ''l'', CHR ''o'', CHR ''w'', CHR 0x0A] None) =
     [''low'', ''bal'', ''low''] \<and>
   load_choices ctl_sample (env_of [] ''low bal'' None) =
     [''balanced'', ''performance'', ''power-saver''] \<and>
   load_choices ctl_sample (env_of all_paths [CHR 0x20, CHR 0x0A] None) =
     [''balanced'', ''performance'', ''power-saver''] \<and>
   load_choices ctl_sample
     \<lparr>path_present = (\<lambda>p. True), file_read = (\<lambda>p. Inl (OSError ''[Errno 5] Input/output error'')),
      write_raises = (\<lambda>p s. None)\<rparr> =
     [''balanced'', ''performance'', ''power-saver'']"
proof -
  let ?raw = "[CHR ''l'', CHR ''o'', CHR ''w'', CHR 0x20, CHR 0x20, CHR ''b'', CHR ''a'',
                        CHR ''l'', CHR 0x09, CHR ''l'', CHR ''o'', CHR ''w'', CHR 0x0A]"
  have d: "decodeChoices ?raw = [''low'', ''bal'', ''low'']"
    "decodeChoices [CHR 0x20, CHR 0x0A] = []"
    by (simp_all add: decodeChoices_def isspace_def)
  have k: "PLATFORM_PROFILE_CHOICES ctl_sample = ''/sys/firmware/acpi/platform_profile_choices''"
    by (simp add: ctl_sample_def)
  have "load_choices ctl_sample (env_of all_paths ?raw None) = [''low'', ''bal'', ''low'']"
    using load_choices_tokens [where c = ctl_sample and e = "env_of all_paths ?raw None"
        and raw = ?raw]
    by (simp add: d k env_of_def all_paths_def path_exists_def)
  moreover have "load_choices ctl_sample (env_of [] ''low bal'' None) =
     [''balanced'', ''performance'', ''power-saver'']"
    using load_choices_tokens [where c = ctl_sample and e = "env_of [] ''low bal'' None"]
    by (simp add: k env_of_def path_exists_def)
  moreover have "load_choices ctl_sample (env_of all_paths [CHR 0x20, CHR 0x0A] None) =
     [''balanced'', ''performance'', ''power-saver'']"
    using load_choices_tokens [where c = ctl_sample
        and e = "env_of all_paths [CHR 0x20, CHR 0x0A] None" and raw = "[CHR 0x20, CHR 0x0A]"]
    by (simp add: d k env_of_def all_paths_def path_exists_def)
  moreover have "load_choices ctl_sample
     \<lparr>path_present = (\<lambda>p. True), file_read = (\<lambda>p. Inl (OSError ''[Errno 5] Input/output error'')),
      write_raises = (\<lambda>p s. None)\<rparr> =
     [''balanced'', ''performance'', ''power-saver'']"
    using load_choices_tokens [where c = ctl_sample
        and e = "\<lparr>path_present = (\<lambda>p. True),
          file_read = (\<lambda>p. Inl (OSError ''[Errno 5] Input/output error'')),
          write_raises = (\<lambda>p s. None)\<rparr>"
        and x = "OSError ''[Errno 5] Input/output error''"]
    by simp
  ultimately show ?thesis by simp
qed

section \<open>Failures at the write\<close>

lemma report_write:
  "report msg (write_text e p s) =
     (case write_raises e p s of
        None \<Rightarrow> Info msg
      | Some x \<Rightarrow>
          if is_permission_error x then Error ''Permission denied: run as root to apply.''
          else Error (''Error: '' @ exn_text x),
      [(p, s)])"
proof (cases "write_raises e p s")
  case None
  then show ?thesis by (simp add: report_def write_text_def)
next
  case (Some x)
  then show ?thesis by (cases x) (simp_all add: report_def write_text_def)
qed

text \<open>
  C8. In each of the four apply operations, when the device path is resolved and the
  inputs are valid, the handler calls the writer once on that path, and its notice follows
  the writer's outcome on that very call: the success notice when the writer returns; the
  fixed text that asks to run as root when it raises a permission error; the generic
  \<open>Error: \<close> followed by the text of the exception when it raises anything else. The
  permission notice is not of the generic form.
\<close>

theorem write_failure_notice:
  "(path_exists e (KB_PER_ZONE c) \<and>
    (single_active sui \<and> parse_hex_color (single_text sui) = Inr col \<or>
     \<not> single_active sui \<and> zone_texts sui = [t1, t2, t3, t4] \<and>
     parse_hex_color t1 = Inr c1 \<and> parse_hex_color t2 = Inr c2 \<and>
     parse_hex_color t3 = Inr c3 \<and> parse_hex_color t4 = Inr c4) \<longrightarrow>
      (\<exists>s. apply_static c e sui =
         (case write_raises e (KB_PER_ZONE c) s of
            None \<Rightarrow> Info ''Keyboard static colors applied''
          | Some x \<Rightarrow>
              if is_permission_error x then Error ''Permission denied: run as root to apply.''
              else Error (''Error: '' @ exn_text x),
          [(KB_PER_ZONE c, s)]))) \<and>
   (path_exists e (KB_FOUR_MODE c) \<and> mode_selected eui < length (mode_names c) \<and>
    (py_strip (color_text eui) = [] \<or> parse_hex_color (color_text eui) = Inr ecol) \<longrightarrow>
      (\<exists>s. apply_effect c e eui =
         (case write_raises e (KB_FOUR_MODE c) s of
            None \<Rightarrow> Info ''Keyboard effect applied''
          | Some x \<Rightarrow>
              if is_permission_error x then Error ''Permission denied: run as root to apply.''
              else Error (''Error: '' @ exn_text x),
          [(KB_FOUR_MODE c, s)]))) \<and>
   (path_exists e (PLATFORM_PROFILE c) \<and> k < length choices \<and> choices ! k \<noteq> [] \<longrightarrow>
      apply_profile c e choices k =
         (case write_raises e (PLATFORM_PROFILE c) (choices ! k @ ''\<newline>'') of
            None \<Rightarrow> Info (''Power profile set to '' @ choices ! k)
          | Some x \<Rightarrow>
              if is_permission_error x then Error ''Permission denied: run as root to apply.''
              else Error (''Error: '' @ exn_text x),
          [(PLATFORM_PROFILE c, choices ! k @ ''\<newline>'')])) \<and>
   (detect_sense_fan_path c e = Some p \<and>
    (auto_active fui \<or>
     0 \<le> cpu_value fui \<and> cpu_value fui \<le> 100 \<and> 0 \<le> gpu_value fui \<and> gpu_value fui \<le> 100) \<longrightarrow>
      (\<exists>s. apply_fans c e fui =
         (case write_raises e p s of
            None \<Rightarrow> Info ''Fan settings applied''
          | Some x \<Rightarrow>
              if is_permission_error x then Error ''Permission denied: run as root to apply.''
              else Error (''Error: '' @ exn_text x),
          [(p, s)]))) \<and>
   Error ''Permission denied: run as root to apply.'' \<noteq> Error (''Error: '' @ t)"
proof (intro conjI impI)
  assume a: "path_exists e (KB_PER_ZONE c) \<and>
    (single_active sui \<and> parse_hex_color (single_text sui) = Inr col \<or>
     \<not> single_active sui \<and> zone_texts sui = [t1, t2, t3, t4] \<and>
     parse_hex_color t1 = Inr c1 \<and> parse_hex_color t2 = Inr c2 \<and>
     parse_hex_color t3 = Inr c3 \<and> parse_hex_color t4 = Inr c4)"
  then have "\<exists>cols. static_colors sui = Inr cols"
    by (auto simp: static_colors_def)
  then obtain cols where "static_colors sui = Inr cols" by blast
  then have "\<exists>s. apply_static c e sui =
      report ''Keyboard static colors applied'' (write_text e (KB_PER_ZONE c) s)"
    using a by (auto simp: apply_static_def Let_def)
  then show "\<exists>s. apply_static c e sui =
         (case write_raises e (KB_PER_ZONE c) s of
            None \<Rightarrow> Info ''Keyboard static colors applied''
          | Some x \<Rightarrow>
              if is_permission_error x then Error ''Permission denied: run as root to apply.''
              else Error (''Error: '' @ exn_text x),
          [(KB_PER_ZONE c, s)])"
    by (simp only: report_write)
next
  assume a: "path_exists e (KB_FOUR_MODE c) \<and> mode_selected eui < length (mode_names c) \<and>
    (py_strip (color_text eui) = [] \<or> parse_hex_color (color_text eui) = Inr ecol)"
  then have "\<exists>rgb. effect_rgb eui = Inr rgb"
    using effect_rgb_cases [of eui ecol] by blast
  then obtain r g b where "effect_rgb eui = Inr (r, g, b)" by (metis prod_cases3)
  then have "\<exists>s. apply_effect c e eui =
      report ''Keyboard effect applied'' (write_text e (KB_FOUR_MODE c) s)"
    using a by (auto simp: apply_effect_def effect_with_mode_def Let_def)
  then show "\<exists>s. apply_effect c e eui =
         (case write_raises e (KB_FOUR_MODE c) s of
            None \<Rightarrow> Info ''Keyboard effect applied''
          | Some x \<Rightarrow>
              if is_permission_error x then Error ''Permission denied: run as root to apply.''
              else Error (''Error: '' @ exn_text x),
          [(KB_FOUR_MODE c, s)])"
    by (simp only: report_write)
next
  assume a: "path_exists e (PLATFORM_PROFILE c) \<and> k < length choices \<and> choices ! k \<noteq> []"
  then have "choices \<noteq> []" by auto
  then have "profile_sel choices k = Inr (choices ! k)" using a by (simp add: profile_sel_def)
  then have "apply_profile c e choices k =
      report (''Power profile set to '' @ choices ! k)
        (write_text e (PLATFORM_PROFILE c) (choices ! k @ ''\<newline>''))"
    using a by (simp add: apply_profile_def)
  then show "apply_profile c e choices k =
         (case write_raises e (PLATFORM_PROFILE c) (choices ! k @ ''\<newline>'') of
            None \<Rightarrow> Info (''Power profile set to '' @ choices ! k)
          | Some x \<Rightarrow>
              if is_permission_error x then Error ''Permission denied: run as root to apply.''
              else Error (''Error: '' @ exn_text x),
          [(PLATFORM_PROFILE c, choices ! k @ ''\<newline>'')])"
    by (simp only: report_write)
next
  assume a: "detect_sense_fan_path c e = Some p \<and>
    (auto_active fui \<or>
     0 \<le> cpu_value fui \<and> cpu_value fui \<le> 100 \<and> 0 \<le> gpu_value fui \<and> gpu_value fui \<le> 100)"
  then have "p \<noteq> []" using detect_nonempty by blast
  then have "\<exists>s. apply_fans c e fui = report ''Fan settings applied'' (write_text e p s)"
    using a by (auto simp: apply_fans_def Let_def)
  then show "\<exists>s. apply_fans c e fui =
         (case write_raises e p s of
            None \<Rightarrow> Info ''Fan settings applied''
          | Some x \<Rightarrow>
              if is_permission_error x then Error ''Permission denied: run as root to apply.''
              else Error (''Error: '' @ exn_text x),
          [(p, s)])"
    by (simp only: report_write)
next
  show "Error ''Permission denied: run as root to apply.'' \<noteq> Error (''Error: '' @ t)"
    by simp
qed

theorem write_failure_notice_witness:
  "fst (apply_static ctl_sample (env_of all_paths [] (Some (PermissionError ''[Errno 13] Permission denied''))) \<lparr>single_active = True, single_text = ''00aaff'', zone_texts = [], bright_value = 100\<rparr>) = Error ''Permission denied: run as root to apply.'' \<and>
   map fst (snd (apply_static ctl_sample (env_of all_paths [] (Some (PermissionError ''[Errno 13] Permission denied''))) \<lparr>single_active = True, single_text = ''00aaff'', zone_texts = [], bright_value = 100\<rparr>)) = [''/sys/acer-wmi/four_zoned_kb/per_zone_mode''] \<and>
   fst (apply_static ctl_sample (env_of all_paths [] (Some (OSError ''[Errno 22] Invalid argument''))) \<lparr>single_active = False, single_text = [], zone_texts = [''ff0000'', ''00ff00'', ''0000ff'', ''abcdef''], bright_value = 7\<rparr>) = Error ''Error: [Errno 22] Invalid argument'' \<and>
   map fst (snd (apply_static ctl_sample (env_of all_paths [] (Some (OSError ''[Errno 22] Invalid argument''))) \<lparr>single_active = False, single_text = [], zone_texts = [''ff0000'', ''00ff00'', ''0000ff'', ''abcdef''], bright_value = 7\<rparr>)) = [''/sys/acer-wmi/four_zoned_kb/per_zone_mode''] \<and>
   fst (apply_effect ctl_sample (env_of all_paths [] (Some (PermissionError ''[Errno 13] Permission denied''))) \<lparr>mode_selected = 3, speed_value = 1, bright2_value = 100, dir_value = 2, color_text = ''ff00aa''\<rparr>) = Error ''Permission denied: run as root to apply.'' \<and>
   map fst (snd (apply_effect ctl_sample (env_of all_paths [] (Some (PermissionError ''[Errno 13] Permission denied''))) \<lparr>mode_selected = 3, speed_value = 1, bright2_value = 100, dir_value = 2, color_text = ''ff00aa''\<rparr>)) = [''/sys/acer-wmi/four_zoned_kb/four_zone_mode''] \<and>
   apply_profile ctl_sample (env_of all_paths [] (Some (PermissionError ''[Errno 13] Permission denied''))) [''balanced'', ''performance''] 1 =
     (Error ''Permission denied: run as root to apply.'', [(''/sys/firmware/acpi/platform_profile'', ''performance\<newline>'')]) \<and>
   fst (apply_fans ctl_sample (env_of all_paths [] (Some (PermissionError ''[Errno 13] Permission denied''))) \<lparr>auto_active = False, cpu_value = 40, gpu_value = 60\<rparr>) = Error ''Permission denied: run as root to apply.'' \<and>
   map fst (snd (apply_fans ctl_sample (env_of all_paths [] (Some (PermissionError ''[Errno 13] Permission denied''))) \<lparr>auto_active = False, cpu_value = 40, gpu_value = 60\<rparr>)) = [''/sys/acer-wmi/predator_sense/fan_speed''] \<and>
   fst (apply_fans ctl_sample (env_of all_paths [] (Some (OSError ''[Errno 22] Invalid argument''))) \<lparr>auto_active = True, cpu_value = 0, gpu_value = 0\<rparr>) = Error ''Error: [Errno 22] Invalid argument'' \<and>
   map fst (snd (apply_fans ctl_sample (env_of all_paths [] (Some (OSError ''[Errno 22] Invalid argument''))) \<lparr>auto_active = True, cpu_value = 0, gpu_value = 0\<rparr>)) = [''/sys/acer-wmi/predator_sense/fan_speed'']"
proof -
  have p: "parse_hex_color ''00aaff'' = Inr ''00aaff''"
    "parse_hex_color ''ff0000'' = Inr ''ff0000''" "parse_hex_color ''00ff00'' = Inr ''00ff00''"
    "parse_hex_color ''0000ff'' = Inr ''0000ff''" "parse_hex_color ''abcdef'' = Inr ''abcdef''"
    "parse_hex_color ''ff00aa'' = Inr ''ff00aa''"
    by (simp_all add: run_defs)
  have d: "detect_sense_fan_path ctl_sample (env_of all_paths [] (Some (PermissionError ''[Errno 13] Permission denied''))) =
      Some ''/sys/acer-wmi/predator_sense/fan_speed''"
    "detect_sense_fan_path ctl_sample (env_of all_paths [] (Some (OSError ''[Errno 22] Invalid argument''))) =
      Some ''/sys/acer-wmi/predator_sense/fan_speed''"
    by (simp_all add: detect_sense_fan_path_def sample_defs)
  have "\<exists>s. apply_static ctl_sample (env_of all_paths [] (Some (PermissionError ''[Errno 13] Permission denied''))) \<lparr>single_active = True, single_text = ''00aaff'', zone_texts = [], bright_value = 100\<rparr> =
         (case write_raises (env_of all_paths [] (Some (PermissionError ''[Errno 13] Permission denied''))) (KB_PER_ZONE ctl_sample) s of
            None \<Rightarrow> Info ''Keyboard static colors applied''
          | Some x \<Rightarrow>
              if is_permission_error x then Error ''Permission denied: run as root to apply.''
              else Error (''Error: '' @ exn_text x),
          [((KB_PER_ZONE ctl_sample), s)])"
    by (rule write_failure_notice [where c = ctl_sample and e = "env_of all_paths [] (Some (PermissionError ''[Errno 13] Permission denied''))" and sui = "\<lparr>single_active = True, single_text = ''00aaff'', zone_texts = [], bright_value = 100\<rparr>" and col = "''00aaff''" and ?t1.0 = "[]" and ?t2.0 = "[]" and ?t3.0 = "[]" and ?t4.0 = "[]" and ?c1.0 = "[]" and ?c2.0 = "[]" and ?c3.0 = "[]" and ?c4.0 = "[]", THEN conjunct1, THEN mp])
      (simp add: p d sample_defs mode_names_def)
  then have a1: "fst (apply_static ctl_sample (env_of all_paths [] (Some (PermissionError ''[Errno 13] Permission denied''))) \<lparr>single_active = True, single_text = ''00aaff'', zone_texts = [], bright_value = 100\<rparr>) = Error ''Permission denied: run as root to apply.'' \<and>
      map fst (snd (apply_static ctl_sample (env_of all_paths [] (Some (PermissionError ''[Errno 13] Permission denied''))) \<lparr>single_active = True, single_text = ''00aaff'', zone_texts = [], bright_value = 100\<rparr>)) = [''/sys/acer-wmi/four_zoned_kb/per_zone_mode'']"
    by (auto simp: env_of_def ctl_sample_def)
  have "\<exists>s. apply_static ctl_sample (env_of all_paths [] (Some (OSError ''[Errno 22] Invalid argument''))) \<lparr>single_active = False, single_text = [], zone_texts = [''ff0000'', ''00ff00'', ''0000ff'', ''abcdef''], bright_value = 7\<rparr> =
         (case write_raises (env_of all_paths [] (Some (OSError ''[Errno 22] Invalid argument''))) (KB_PER_ZONE ctl_sample) s of
            None \<Rightarrow> Info ''Keyboard static colors applied''
          | Some x \<Rightarrow>
              if is_permission_error x then Error ''Permission denied: run as root to apply.''
              else Error (''Error: '' @ exn_text x),
          [((KB_PER_ZONE ctl_sample), s)])"
    by (rule write_failure_notice [where c = ctl_sample and e = "env_of all_paths [] (Some (OSError ''[Errno 22] Invalid argument''))" and sui = "\<lparr>single_active = False, single_text = [], zone_texts = [''ff0000'', ''00ff00'', ''0000ff'', ''abcdef''], bright_value = 7\<rparr>" and col = "[]" and ?t1.0 = "''ff0000''" and ?t2.0 = "''00ff00''" and ?t3.0 = "''0000ff''" and ?t4.0 = "''abcdef''" and ?c1.0 = "''ff0000''" and ?c2.0 = "''00ff00''" and ?c3.0 = "''0000ff''" and ?c4.0 = "''abcdef''", THEN conjunct1, THEN mp])
      (simp add: p d sample_defs mode_names_def)
  then have a2: "fst (apply_static ctl_sample (env_of all_paths [] (Some (OSError ''[Errno 22] Invalid argument''))) \<lparr>single_active = False, single_text = [], zone_texts = [''ff0000'', ''00ff00'', ''0000ff'', ''abcdef''], bright_value = 7\<rparr>) = Error ''Error: [Errno 22] Invalid argument'' \<and>
      map fst (snd (apply_static ctl_sample (env_of all_paths [] (Some (OSError ''[Errno 22] Invalid argument''))) \<lparr>single_active = False, single_text = [], zone_texts = [''ff0000'', ''00ff00'', ''0000ff'', ''abcdef''], bright_value = 7\<rparr>)) = [''/sys/acer-wmi/four_zoned_kb/per_zone_mode'']"
    by (auto simp: env_of_def ctl_sample_def)
  have "\<exists>s. apply_effect ctl_sample (env_of all_paths [] (Some (PermissionError ''[Errno 13] Permission denied''))) \<lparr>mode_selected = 3, speed_value = 1, bright2_value = 100, dir_value = 2, color_text = ''ff00aa''\<rparr> =
         (case write_raises (env_of all_paths [] (Some (PermissionError ''[Errno 13] Permission denied''))) (KB_FOUR_MODE ctl_sample) s of
            None \<Rightarrow> Info ''Keyboard effect applied''
          | Some x \<Rightarrow>
              if is_permission_error x then Error ''Permission denied: run as root to apply.''
              else Error (''Error: '' @ exn_text x),
          [((KB_FOUR_MODE ctl_sample), s)])"
    by (rule write_failure_notice [where c = ctl_sample and e = "env_of all_paths [] (Some (PermissionError ''[Errno 13] Permission denied''))" and eui = "\<lparr>mode_selected = 3, speed_value = 1, bright2_value = 100, dir_value = 2, color_text = ''ff00aa''\<rparr>" and ecol = "''ff00aa''", THEN conjunct2, THEN conjunct1, THEN mp])
      (simp add: p d sample_defs mode_names_def)
  then have a3: "fst (apply_effect ctl_sample (env_of all_paths [] (Some (PermissionError ''[Errno 13] Permission denied''))) \<lparr>mode_selected = 3, speed_value = 1, bright2_value = 100, dir_value = 2, color_text = ''ff00aa''\<rparr>) = Error ''Permission denied: run as root to apply.'' \<and>
      map fst (snd (apply_effect ctl_sample (env_of all_paths [] (Some (PermissionError ''[Errno 13] Permission denied''))) \<lparr>mode_selected = 3, speed_value = 1, bright2_value = 100, dir_value = 2, color_text = ''ff00aa''\<rparr>)) = [''/sys/acer-wmi/four_zoned_kb/four_zone_mode'']"
    by (auto simp: env_of_def ctl_sample_def)
  have "apply_profile ctl_sample (env_of all_paths [] (Some (PermissionError ''[Errno 13] Permission denied''))) [''balanced'', ''performance''] 1 =
         (case write_raises (env_of all_paths [] (Some (PermissionError ''[Errno 13] Permission denied''))) (PLATFORM_PROFILE ctl_sample)
                 ([''balanced'', ''performance''] ! 1 @ ''\<newline>'') of
            None \<Rightarrow> Info (''Power profile set to '' @ [''balanced'', ''performance''] ! 1)
          | Some x \<Rightarrow>
              if is_permission_error x then Error ''Permission denied: run as root to apply.''
              else Error (''Error: '' @ exn_text x),
          [(PLATFORM_PROFILE ctl_sample, [''balanced'', ''performance''] ! 1 @ ''\<newline>'')])"
    by (rule write_failure_notice [where c = ctl_sample and e = "env_of all_paths [] (Some (PermissionError ''[Errno 13] Permission denied''))"
          and choices = "[''balanced'', ''performance'']" and k = 1,
          THEN conjunct2, THEN conjunct2, THEN conjunct1, THEN mp])
      (simp add: sample_defs)
  then have a4: "apply_profile ctl_sample (env_of all_paths [] (Some (PermissionError ''[Errno 13] Permission denied''))) [''balanced'', ''performance''] 1 =
     (Error ''Permission denied: run as root to apply.'', [(''/sys/firmware/acpi/platform_profile'', ''performance\<newline>'')])"
    by (simp add: env_of_def ctl_sample_def)
  have "\<exists>s. apply_fans ctl_sample (env_of all_paths [] (Some (PermissionError ''[Errno 13] Permission denied''))) \<lparr>auto_active = False, cpu_value = 40, gpu_value = 60\<rparr> =
         (case write_raises (env_of all_paths [] (Some (PermissionError ''[Errno 13] Permission denied''))) ''/sys/acer-wmi/predator_sense/fan_speed'' s of
            None \<Rightarrow> Info ''Fan settings applied''
          | Some x \<Rightarrow>
              if is_permission_error x then Error ''Permission denied: run as root to apply.''
              else Error (''Error: '' @ exn_text x),
          [(''/sys/acer-wmi/predator_sense/fan_speed'', s)])"
    by (rule write_failure_notice [where c = ctl_sample and e = "env_of all_paths [] (Some (PermissionError ''[Errno 13] Permission denied''))" and fui = "\<lparr>auto_active = False, cpu_value = 40, gpu_value = 60\<rparr>" and p = "''/sys/acer-wmi/predator_sense/fan_speed''", THEN conjunct2, THEN conjunct2, THEN conjunct2, THEN conjunct1, THEN mp])
      (simp add: d)
  then have a5: "fst (apply_fans ctl_sample (env_of all_paths [] (Some (PermissionError ''[Errno 13] Permission denied''))) \<lparr>auto_active = False, cpu_value = 40, gpu_value = 60\<rparr>) = Error ''Permission denied: run as root to apply.'' \<and>
      map fst (snd (apply_fans ctl_sample (env_of all_paths [] (Some (PermissionError ''[Errno 13] Permission denied''))) \<lparr>auto_active = False, cpu_value = 40, gpu_value = 60\<rparr>)) = [''/sys/acer-wmi/predator_sense/fan_speed'']"
    by (auto simp: env_of_def ctl_sample_def)
  have "\<exists>s. apply_fans ctl_sample (env_of all_paths [] (Some (OSError ''[Errno 22] Invalid argument''))) \<lparr>auto_active = True, cpu_value = 0, gpu_value = 0\<rparr> =
         (case write_raises (env_of all_paths [] (Some (OSError ''[Errno 22] Invalid argument''))) ''/sys/acer-wmi/predator_sense/fan_speed'' s of
            None \<Rightarrow> Info ''Fan settings applied''
          | Some x \<Rightarrow>
              if is_permission_error x then Error ''Permission denied: run as root to apply.''
              else Error (''Error: '' @ exn_text x),
          [(''/sys/acer-wmi/predator_sense/fan_speed'', s)])"
    by (rule write_failure_notice [where c = ctl_sample and e = "env_of all_paths [] (Some (OSError ''[Errno 22] Invalid argument''))" and fui = "\<lparr>auto_active = True, cpu_value = 0, gpu_value = 0\<rparr>" and p = "''/sys/acer-wmi/predator_sense/fan_speed''", THEN conjunct2, THEN conjunct2, THEN conjunct2, THEN conjunct1, THEN mp])
      (simp add: d)
  then have a6: "fst (apply_fans ctl_sample (env_of all_paths [] (Some (OSError ''[Errno 22] Invalid argument''))) \<lparr>auto_active = True, cpu_value = 0, gpu_value = 0\<rparr>) = Error ''Error: [Errno 22] Invalid argument'' \<and>
      map fst (snd (apply_fans ctl_sample (env_of all_paths [] (Some (OSError ''[Errno 22] Invalid argument''))) \<lparr>auto_active = True, cpu_value = 0, gpu_value = 0\<rparr>)) = [''/sys/acer-wmi/predator_sense/fan_speed'']"
    by (auto simp: env_of_def ctl_sample_def)
  from a1 a2 a3 a4 a5 a6 show ?thesis by simp
qed

section \<open>Effect mode names\<close>



end
